(* ===== verification/Prelude.thy ===== *)
theory Prelude
  imports
    Complex_Main
    "HOL-Library.Multiset"
    "HOL-Library.Option_ord"
    "HOL-Library.List_Lexorder"
    "HOL-Library.Char_ord"
    "HOL-Library.Product_Lexorder"
    "HOL-Library.Signed_Division"
begin

text \<open>
  Shared vocabulary of the development: the names of the model's value types, the
  theorem collections the component theories fill, and the generic facts on lists,
  options and orders that the component proofs use (first-occurrence deduplication,
  stable descending sort by key, averages of optional numbers).
\<close>

named_theorems query_defs
  "definitions of the literal filters, projections and pipelines of the script"
named_theorems bson_simps
  "evaluation rules for the comparison of stored values"

type_synonym money = rat
  \<comment> \<open>a JavaScript number used as a price; exact rationals, rounding of doubles not modelled\<close>
type_synonym year = int
  \<comment> \<open>a published year, stored by the driver as a 32-bit integer\<close>

section \<open>First-occurrence deduplication\<close>

text \<open>
  \<open>remdups\<close> of the library keeps the last occurrence of each element. MongoDB's
  \<open>$group\<close> meets its keys in input order, so the model needs the first occurrence.
\<close>

definition remdups_first :: "'a list \<Rightarrow> 'a list" where
  "remdups_first xs = rev (remdups (rev xs))"

lemma remdups_first_Nil [simp]: "remdups_first [] = []"
  by (simp add: remdups_first_def)

lemma remdups_first_snoc [simp]:
  "remdups_first (xs @ [x]) = remdups_first xs @ (if x \<in> set xs then [] else [x])"
  by (simp add: remdups_first_def)

lemma set_remdups_first [simp]: "set (remdups_first xs) = set xs"
  by (simp add: remdups_first_def)

lemma distinct_remdups_first [simp]: "distinct (remdups_first xs)"
  by (simp add: remdups_first_def)

lemma remdups_first_Cons:
  "remdups_first (x # xs) = x # filter (\<lambda>y. y \<noteq> x) (remdups_first xs)"
proof (induction xs rule: rev_induct)
  case Nil
  then show ?case by (simp add: remdups_first_def)
next
  case (snoc y ys)
  have "remdups_first ((x # ys) @ [y]) =
        remdups_first (x # ys) @ (if y \<in> set (x # ys) then [] else [y])"
    by (rule remdups_first_snoc)
  with snoc show ?case by auto
qed

lemma filter_Cons_head: "filter P xs = a # ys \<Longrightarrow> P a"
  by (metis filter_eq_ConsD)

lemma takeWhile_distinct_prefix:
  "x \<notin> set xs \<Longrightarrow> takeWhile (\<lambda>a. a \<noteq> x) (xs @ x # ys) = xs"
  by (induction xs) auto

section \<open>Counting and summing over groups\<close>

lemma sum_count_distinct_keys:
  assumes "distinct ks" and "set (map f xs) \<subseteq> set ks"
  shows "(\<Sum>k\<leftarrow>ks. length (filter (\<lambda>x. f x = k) xs)) = length xs"
  using assms
proof (induction xs arbitrary: ks)
  case Nil
  then show ?case by simp
next
  case (Cons x xs)
  have split: "(\<Sum>k\<leftarrow>ks. length (filter (\<lambda>y. f y = k) (x # xs))) =
     (\<Sum>k\<leftarrow>ks. (if f x = k then 1 else 0)) + (\<Sum>k\<leftarrow>ks. length (filter (\<lambda>y. f y = k) xs))"
    by (induction ks) auto
  have one: "(\<Sum>k\<leftarrow>ks. (if f x = k then 1 else 0 :: nat)) = 1"
    using Cons.prems by (simp add: sum_list_distinct_conv_sum_set sum.delta)
  from Cons.prems have "set (map f xs) \<subseteq> set ks" by simp
  with Cons.prems(1) Cons.IH split one show ?case by simp
qed

section \<open>Stable descending sort by key\<close>

text \<open>
  A sort stage with direction \<open>-1\<close> orders by the key, largest first. Insertion places
  the new element before the first element whose key is at most its own, so of two
  elements with equal keys the one met first stays first: the sort is stable.
\<close>

fun insort_desc_key :: "('a \<Rightarrow> 'k::linorder) \<Rightarrow> 'a \<Rightarrow> 'a list \<Rightarrow> 'a list" where
  "insort_desc_key f x [] = [x]"
| "insort_desc_key f x (y # ys) =
     (if f y \<le> f x then x # y # ys else y # insort_desc_key f x ys)"

definition sort_desc_key :: "('a \<Rightarrow> 'k::linorder) \<Rightarrow> 'a list \<Rightarrow> 'a list" where
  "sort_desc_key f xs = foldr (insort_desc_key f) xs []"

lemma sort_desc_key_Nil [simp]: "sort_desc_key f [] = []"
  by (simp add: sort_desc_key_def)

lemma sort_desc_key_Cons [simp]:
  "sort_desc_key f (x # xs) = insort_desc_key f x (sort_desc_key f xs)"
  by (simp add: sort_desc_key_def)

lemma mset_insort_desc_key [simp]: "mset (insort_desc_key f x xs) = add_mset x (mset xs)"
  by (induction xs) auto

lemma mset_sort_desc_key [simp]: "mset (sort_desc_key f xs) = mset xs"
  by (induction xs) auto

lemma set_sort_desc_key [simp]: "set (sort_desc_key f xs) = set xs"
  by (metis mset_sort_desc_key set_mset_mset)

lemma length_sort_desc_key [simp]: "length (sort_desc_key f xs) = length xs"
  by (metis mset_sort_desc_key size_mset)

lemma sort_desc_key_Nil_iff [simp]: "sort_desc_key f xs = [] \<longleftrightarrow> xs = []"
  by (metis length_0_conv length_sort_desc_key)

lemma set_insort_desc_key: "set (insort_desc_key f x xs) = insert x (set xs)"
  by (induction xs) auto

lemma sorted_desc_insort_desc_key:
  "sorted_wrt (\<ge>) (map f xs) \<Longrightarrow> sorted_wrt (\<ge>) (map f (insort_desc_key f x xs))"
  by (induction xs) (auto simp: set_insort_desc_key)

lemma sorted_desc_sort_desc_key: "sorted_wrt (\<ge>) (map f (sort_desc_key f xs))"
  by (induction xs) (simp_all add: sorted_desc_insort_desc_key)

lemma insort_desc_key_is_Cons:
  "\<forall>y\<in>set ys. f y \<le> f x \<Longrightarrow> insort_desc_key f x ys = x # ys"
  by (cases ys) auto

lemma filter_insort_desc_key_neg:
  "\<not> P x \<Longrightarrow> filter P (insort_desc_key f x xs) = filter P xs"
  by (induction xs) simp_all

lemma filter_insort_desc_key_pos:
  "sorted_wrt (\<ge>) (map f xs) \<Longrightarrow> P x \<Longrightarrow>
   filter P (insort_desc_key f x xs) = insort_desc_key f x (filter P xs)"
proof (induction xs)
  case Nil
  then show ?case by simp
next
  case (Cons y ys)
  show ?case
  proof (cases "f y \<le> f x")
    case True
    with Cons.prems have "\<forall>z\<in>set (filter P (y # ys)). f z \<le> f x" by auto
    with True Cons.prems(2) show ?thesis by (simp add: insort_desc_key_is_Cons)
  next
    case False
    with Cons show ?thesis by auto
  qed
qed

lemma sort_desc_key_stable:
  "filter (\<lambda>y. f y = k) (sort_desc_key f xs) = filter (\<lambda>y. f y = k) xs"
proof (induction xs)
  case Nil
  then show ?case by simp
next
  case (Cons x xs)
  show ?case
  proof (cases "f x = k")
    case False
    with Cons.IH show ?thesis by (simp add: filter_insort_desc_key_neg)
  next
    case True
    have "filter (\<lambda>y. f y = k) (sort_desc_key f (x # xs)) =
          insort_desc_key f x (filter (\<lambda>y. f y = k) (sort_desc_key f xs))"
      using True by (simp add: filter_insort_desc_key_pos sorted_desc_sort_desc_key)
    also have "\<dots> = insort_desc_key f x (filter (\<lambda>y. f y = k) xs)"
      by (simp add: Cons.IH)
    also have "\<dots> = x # filter (\<lambda>y. f y = k) xs"
      using True by (simp add: insort_desc_key_is_Cons)
    finally show ?thesis using True by simp
  qed
qed

text \<open>The head of a stable descending sort has the largest key, and it is the first
  element of the input with that key: ties go to the element met first.\<close>

lemma sort_desc_key_hd_max:
  "sort_desc_key f xs = y # ys \<Longrightarrow> x \<in> set xs \<Longrightarrow> f x \<le> f y"
  using sorted_desc_sort_desc_key [of f xs] set_sort_desc_key [of f xs] by auto

lemma sort_desc_key_hd_first:
  assumes "sort_desc_key f xs = y # ys"
  shows "\<exists>as bs. xs = as @ y # bs \<and> (\<forall>a\<in>set as. f a < f y)"
proof -
  have "filter (\<lambda>z. f z = f y) xs = filter (\<lambda>z. f z = f y) (sort_desc_key f xs)"
    by (simp add: sort_desc_key_stable)
  also have "\<dots> = y # filter (\<lambda>z. f z = f y) ys"
    using assms by simp
  finally have "filter (\<lambda>z. f z = f y) xs = y # filter (\<lambda>z. f z = f y) ys" .
  then obtain as bs where xs: "xs = as @ y # bs" and none: "\<forall>a\<in>set as. f a \<noteq> f y"
    by (auto simp: filter_eq_Cons_iff)
  have "\<forall>a\<in>set as. f a \<le> f y"
    using sort_desc_key_hd_max [OF assms] xs by auto
  with none have "\<forall>a\<in>set as. f a < f y" by (auto simp: order.order_iff_strict)
  with xs show ?thesis by blast
qed


section \<open>Averages of optional numbers\<close>

text \<open>
  MongoDB's \<open>$avg\<close> ignores values that are not numbers (a missing field is one):
  the mean is taken over the numbers alone, and it is \<open>null\<close> when there are none.
\<close>

definition avg_opt :: "money option list \<Rightarrow> money option" where
  "avg_opt vs = (let ns = List.map_filter id vs in
                 if ns = [] then None else Some (sum_list ns / of_nat (length ns)))"

lemma map_filter_id_Some [simp]: "List.map_filter id (map Some xs) = xs"
  by (induction xs) (simp_all add: List.map_filter_simps)

lemma avg_opt_append_None [simp]: "avg_opt (vs @ [None]) = avg_opt vs"
  by (simp add: avg_opt_def List.map_filter_def)

lemma avg_opt_all_Some:
  "xs \<noteq> [] \<Longrightarrow> avg_opt (map Some xs) = Some (sum_list xs / of_nat (length xs))"
  by (simp add: avg_opt_def)

end
