(* ===== verification/Books.thy ===== *)
theory Books
  imports Prelude
begin

text \<open>
  The documents of the \<open>books\<close> collection, the values the driver stores for their
  fields, MongoDB's comparison order on those values, and the filter documents of
  \<open>src/queries.js\<close> (\<open>{ genre: "Fiction" }\<close>, \<open>{ published_year: { $gt: 1950 } }\<close>, ...)
  as a small filter language with its matching relation. A collection is the list of
  its documents in natural (insertion) order, which is the order \<open>find\<close> returns them
  in when no sort is given.
\<close>

section \<open>Documents\<close>

text \<open>
  A book as the script reads it (\<open>book.title\<close>, \<open>book.author\<close>, \<open>book.published_year\<close>,
  \<open>book.price\<close>, \<open>in_stock\<close>, \<open>publisher\<close>). A field the document may lack is an
  \<open>option\<close>: \<open>None\<close> is the missing field, which MongoDB compares as \<open>null\<close>.
\<close>

record book =
  title :: string
  author :: string
  genre :: string
  published_year :: "year option"
  price :: "money option"
  in_stock :: bool
  publisher :: "string option"

datatype field = Title | Author | Genre | Published_year | Price | In_stock | Publisher

text \<open>The BSON values a field holds: JavaScript integers go to the server as 32-bit
  integers, other numbers as doubles.\<close>

datatype bson = BNull | BInt int | BDouble rat | BStr string | BBool bool

fun get_field_opt :: "book \<Rightarrow> field \<Rightarrow> bson option" where
  "get_field_opt b Title = Some (BStr (title b))"
| "get_field_opt b Author = Some (BStr (author b))"
| "get_field_opt b Genre = Some (BStr (genre b))"
| "get_field_opt b Published_year = map_option BInt (published_year b)"
| "get_field_opt b Price = map_option BDouble (price b)"
| "get_field_opt b In_stock = Some (BBool (in_stock b))"
| "get_field_opt b Publisher = map_option BStr (publisher b)"

definition get_field :: "book \<Rightarrow> field \<Rightarrow> bson" where
  "get_field b f = (case get_field_opt b f of None \<Rightarrow> BNull | Some v \<Rightarrow> v)"

section \<open>The comparison order of stored values\<close>

text \<open>
  MongoDB compares values of different types by a fixed order of type brackets
  (null before numbers before strings before booleans), numbers by their numeric value
  whatever their width, strings by their bytes. The key below is that order: two values
  compare as their keys do, and they are equal for the server exactly when their keys are.
\<close>

fun bson_key :: "bson \<Rightarrow> nat \<times> rat \<times> string \<times> bool" where
  "bson_key BNull = (2, 0, [], False)"
| "bson_key (BInt i) = (3, of_int i, [], False)"
| "bson_key (BDouble r) = (3, r, [], False)"
| "bson_key (BStr s) = (4, 0, s, False)"
| "bson_key (BBool v) = (9, 0, [], v)"

definition bracket :: "bson \<Rightarrow> nat" where
  "bracket v = fst (bson_key v)"

section \<open>Filters\<close>

text \<open>
  A filter document is a conjunction of conditions on fields. A bare value is an
  equality; \<open>$gt\<close> and \<open>$gte\<close> only match values of the same type bracket
  (\<open>{ $gt: 1950 }\<close> never matches a string, nor a missing year).
\<close>

datatype cond = Eq field bson | Gt field bson | Gte field bson

type_synonym filter = "cond list"

fun cond_holds :: "book \<Rightarrow> cond \<Rightarrow> bool" where
  "cond_holds b (Eq f v) = (bson_key (get_field b f) = bson_key v)"
| "cond_holds b (Gt f v) =
     (bracket (get_field b f) = bracket v \<and> bson_key v < bson_key (get_field b f))"
| "cond_holds b (Gte f v) =
     (bracket (get_field b f) = bracket v \<and> bson_key v \<le> bson_key (get_field b f))"

definition matches :: "filter \<Rightarrow> book \<Rightarrow> bool" where
  "matches q b = list_all (cond_holds b) q"

text \<open>\<open>collection.find(q).toArray()\<close>: the matching documents in natural order.\<close>

definition find :: "filter \<Rightarrow> book list \<Rightarrow> book list" where
  "find q coll = filter (matches q) coll"

section \<open>Sample documents\<close>

text \<open>Documents of the shape the bookstore collection holds, used by the witness theorems
  to apply the properties at concrete collections.\<close>

abbreviation book_1984 :: book where
  "book_1984 \<equiv> \<lparr>title = ''1984'', author = ''George Orwell'', genre = ''Dystopian'',
     published_year = Some 1949, price = Some (1099 / 100), in_stock = True,
     publisher = Some ''Secker & Warburg''\<rparr>"

abbreviation book_animal_farm :: book where
  "book_animal_farm \<equiv> \<lparr>title = ''Animal Farm'', author = ''George Orwell'',
     genre = ''Political Satire'', published_year = Some 1945, price = Some (850 / 100),
     in_stock = False, publisher = Some ''Secker & Warburg''\<rparr>"

abbreviation book_hobbit :: book where
  "book_hobbit \<equiv> \<lparr>title = ''The Hobbit'', author = ''J.R.R. Tolkien'', genre = ''Fantasy'',
     published_year = Some 1937, price = Some (1499 / 100), in_stock = True,
     publisher = Some ''George Allen & Unwin''\<rparr>"

abbreviation book_lotr :: book where
  "book_lotr \<equiv> \<lparr>title = ''The Lord of the Rings'', author = ''J.R.R. Tolkien'',
     genre = ''Fantasy'', published_year = Some 1954, price = Some (1999 / 100),
     in_stock = True, publisher = Some ''George Allen & Unwin''\<rparr>"

abbreviation book_gatsby :: book where
  "book_gatsby \<equiv> \<lparr>title = ''The Great Gatsby'', author = ''F. Scott Fitzgerald'',
     genre = ''Fiction'', published_year = Some 1925, price = Some (999 / 100),
     in_stock = True, publisher = Some ''Charles Scribner's Sons''\<rparr>"

abbreviation book_catcher :: book where
  "book_catcher \<equiv> \<lparr>title = ''The Catcher in the Rye'', author = ''J.D. Salinger'',
     genre = ''Fiction'', published_year = Some 1951, price = Some (899 / 100),
     in_stock = True, publisher = Some ''Little, Brown and Company''\<rparr>"

abbreviation book_brave_new_world :: book where
  "book_brave_new_world \<equiv> \<lparr>title = ''Brave New World'', author = ''Aldous Huxley'',
     genre = ''Dystopian'', published_year = Some 1932, price = None,
     in_stock = True, publisher = None\<rparr>"

section \<open>Evaluation rules\<close>

lemma get_field_simps [simp, bson_simps]:
  "get_field b Title = BStr (title b)"
  "get_field b Author = BStr (author b)"
  "get_field b Genre = BStr (genre b)"
  "get_field b Published_year = (case published_year b of None \<Rightarrow> BNull | Some y \<Rightarrow> BInt y)"
  "get_field b Price = (case price b of None \<Rightarrow> BNull | Some p \<Rightarrow> BDouble p)"
  "get_field b In_stock = BBool (in_stock b)"
  "get_field b Publisher = (case publisher b of None \<Rightarrow> BNull | Some p \<Rightarrow> BStr p)"
  by (simp_all add: get_field_def split: option.split)

lemma bracket_simps [simp, bson_simps]:
  "bracket BNull = 2" "bracket (BInt i) = 3" "bracket (BDouble r) = 3"
  "bracket (BStr s) = 4" "bracket (BBool v) = 9"
  by (simp_all add: bracket_def)

lemma bson_key_eq_str [bson_simps]: "bson_key w = bson_key (BStr s) \<longleftrightarrow> w = BStr s"
  by (cases w) auto

lemma bson_key_eq_bool [bson_simps]: "bson_key w = bson_key (BBool v) \<longleftrightarrow> w = BBool v"
  by (cases w) auto

lemma matches_Nil [simp]: "matches [] b"
  by (simp add: matches_def)

lemma matches_Cons [simp]: "matches (c # q) b \<longleftrightarrow> cond_holds b c \<and> matches q b"
  by (simp add: matches_def)

lemma matches_append [simp]: "matches (q1 @ q2) b \<longleftrightarrow> matches q1 b \<and> matches q2 b"
  by (simp add: matches_def)

text \<open>The three kinds of condition the script writes, on the fields it writes them on.\<close>

lemma cond_Eq_string [simp]:
  "cond_holds b (Eq f (BStr s)) \<longleftrightarrow> get_field b f = BStr s"
  by (simp only: cond_holds.simps bson_key_eq_str)

lemma cond_Eq_bool [simp]:
  "cond_holds b (Eq f (BBool v)) \<longleftrightarrow> get_field b f = BBool v"
  by (simp only: cond_holds.simps bson_key_eq_bool)

lemma cond_Gt_year [simp]:
  "cond_holds b (Gt Published_year (BInt n)) \<longleftrightarrow>
   (\<exists>y. published_year b = Some y \<and> n < y)"
  by (cases "published_year b") auto

lemma cond_Gte_year [simp]:
  "cond_holds b (Gte Published_year (BInt n)) \<longleftrightarrow>
   (\<exists>y. published_year b = Some y \<and> n \<le> y)"
  by (cases "published_year b") auto

text \<open>From here on a condition is evaluated through the rules above.\<close>

declare cond_holds.simps [simp del]

section \<open>Finding documents\<close>

lemma find_Nil [simp]: "find q [] = []"
  by (simp add: find_def)

lemma find_Cons [simp]:
  "find q (b # bs) = (if matches q b then b # find q bs else find q bs)"
  by (simp add: find_def)

lemma find_append_filter: "find (q1 @ q2) coll = find q2 (find q1 coll)"
  by (induction coll) auto

lemma set_find [simp]: "set (find q coll) = {b \<in> set coll. matches q b}"
  by (auto simp: find_def)

end
