(* ===== verification/Grouping.thy ===== *)
theory Grouping
  imports Prelude
begin

text \<open>
  MongoDB's \<open>$group\<close> stage, the engine of the three aggregations of
  \<open>src/queries.js\<close> (lines 148-243). The server streams the documents once and keeps a
  table from group key to the accumulated members; a document either extends the entry
  of its key or opens a new entry. \<open>group_by\<close> is that streaming implementation,
  \<open>group_spec\<close> the reference description (one group per distinct key, in order of
  first occurrence, holding exactly the documents with that key in input order), and
  \<open>group_by_spec\<close> shows they agree. The accumulators (\<open>$sum: 1\<close>, \<open>$avg\<close>,
  \<open>$first\<close>, \<open>$push\<close>) are functions of a group's member list.
\<close>

fun group_add :: "('a \<Rightarrow> 'k) \<Rightarrow> 'a \<Rightarrow> ('k \<times> 'a list) list \<Rightarrow> ('k \<times> 'a list) list" where
  "group_add f x [] = [(f x, [x])]"
| "group_add f x ((k, ms) # gs) =
     (if k = f x then (k, ms @ [x]) # gs else (k, ms) # group_add f x gs)"

definition group_by :: "('a \<Rightarrow> 'k) \<Rightarrow> 'a list \<Rightarrow> ('k \<times> 'a list) list" where
  "group_by f xs = fold (group_add f) xs []"

definition group_spec :: "('a \<Rightarrow> 'k) \<Rightarrow> 'a list \<Rightarrow> ('k \<times> 'a list) list" where
  "group_spec f xs = map (\<lambda>k. (k, filter (\<lambda>x. f x = k) xs)) (remdups_first (map f xs))"

section \<open>The streaming table implements the reference grouping\<close>

lemma group_by_snoc: "group_by f (xs @ [x]) = group_add f x (group_by f xs)"
  by (simp add: group_by_def)

lemma group_add_keys_present:
  assumes "distinct ks" and "f x \<in> set ks"
  shows "group_add f x (map (\<lambda>k. (k, g k)) ks) =
         map (\<lambda>k. (k, if k = f x then g k @ [x] else g k)) ks"
  using assms by (induction ks) auto

lemma group_add_keys_absent:
  assumes "f x \<notin> set ks"
  shows "group_add f x (map (\<lambda>k. (k, g k)) ks) = map (\<lambda>k. (k, g k)) ks @ [(f x, [x])]"
  using assms by (induction ks) auto

lemma group_add_spec: "group_add f x (group_spec f xs) = group_spec f (xs @ [x])"
proof (cases "f x \<in> f ` set xs")
  case True
  then have "f x \<in> set (remdups_first (map f xs))" by simp
  then show ?thesis
    by (simp add: group_spec_def group_add_keys_present True)
next
  case False
  have none: "filter (\<lambda>y. f y = f x) xs = []"
  proof (rule filter_False, intro ballI notI)
    fix y
    assume "y \<in> set xs" and "f y = f x"
    with False show False by (metis image_eqI)
  qed
  have "f x \<notin> set (remdups_first (map f xs))" using False by simp
  then show ?thesis
    using False none by (auto simp: group_spec_def group_add_keys_absent)
qed

lemma group_by_eq_spec: "group_by f xs = group_spec f xs"
proof (induction xs rule: rev_induct)
  case Nil
  then show ?case by (simp add: group_by_def group_spec_def)
next
  case (snoc x xs)
  then show ?case by (simp add: group_by_snoc group_add_spec)
qed

section \<open>Facts about the groups\<close>

lemma group_spec_keys: "map fst (group_spec f xs) = remdups_first (map f xs)"
  by (simp add: group_spec_def comp_def)

lemma group_spec_members:
  "(k, ms) \<in> set (group_spec f xs) \<longleftrightarrow> k \<in> f ` set xs \<and> ms = filter (\<lambda>x. f x = k) xs"
  by (auto simp: group_spec_def)

lemma group_spec_nonempty: "(k, ms) \<in> set (group_spec f xs) \<Longrightarrow> ms \<noteq> []"
  by (auto simp: group_spec_members filter_empty_conv)

lemma group_spec_Nil_iff [simp]: "group_spec f xs = [] \<longleftrightarrow> xs = []"
  by (simp add: group_spec_def remdups_first_def)

lemma sum_group_sizes: "(\<Sum>g\<leftarrow>group_spec f xs. length (snd g)) = length xs"
proof -
  have "(\<Sum>g\<leftarrow>group_spec f xs. length (snd g)) =
        (\<Sum>k\<leftarrow>remdups_first (map f xs). length (filter (\<lambda>x. f x = k) xs))"
    by (simp add: group_spec_def comp_def)
  also have "\<dots> = length xs"
    by (rule sum_count_distinct_keys) auto
  finally show ?thesis .
qed

text \<open>Grouping by a key that is an injective image of another key gives the same
  groups: the decade label is a printed form of the decade start.\<close>

lemma remdups_first_map_inj:
  "inj_on h (set xs) \<Longrightarrow> remdups_first (map h xs) = map h (remdups_first xs)"
proof (induction xs rule: rev_induct)
  case Nil
  then show ?case by simp
next
  case (snoc x xs)
  then have IH: "remdups_first (map h xs) = map h (remdups_first xs)" by simp
  from snoc.prems have "h x \<in> h ` set xs \<longleftrightarrow> x \<in> set xs" by (auto simp: inj_on_def)
  with IH show ?case by simp
qed

text \<open>
  C1: The streaming \<open>$group\<close> table is the grouping of the input by key: its keys are
  the distinct keys of the input in order of first occurrence, and the entry of each key
  holds exactly the input elements with that key, in input order.
\<close>

theorem group_by_refines_map:
  "map fst (group_by f xs) = remdups_first (map f xs) \<and>
   map_of (group_by f xs) = (\<lambda>k. if k \<in> f ` set xs then Some (filter (\<lambda>x. f x = k) xs) else None)"
proof
  show "map fst (group_by f xs) = remdups_first (map f xs)"
    by (simp add: group_by_eq_spec group_spec_keys)
  show "map_of (group_by f xs) = (\<lambda>k. if k \<in> f ` set xs then Some (filter (\<lambda>x. f x = k) xs) else None)"
    by (simp add: group_by_eq_spec group_spec_def map_of_map_restrict restrict_map_def fun_eq_iff)
qed

end
