(* ===== verification/Expressions.thy ===== *)
theory Expressions
  imports Prelude
begin

text \<open>
  The aggregation expression operators that \<open>src/queries.js\<close> applies to field values:
  \<open>$round: [x, 2]\<close> (lines 159 and 235), \<open>$mod\<close> and \<open>$subtract\<close> for the decade start
  (lines 202 and 206-211), \<open>$toString\<close> and \<open>$concat\<close> for the decade label (lines
  201-204). MongoDB's \<open>$round\<close> rounds a tie to the even neighbour, and its \<open>$mod\<close>
  truncates: the remainder has the sign of the dividend (\<open>smod\<close>), unlike HOL's \<open>mod\<close>.
  The section on printing integers also gives a reader for the printed form and proves the
  round trip, which makes the decade label an injective function of the decade start.
\<close>

section \<open>Rounding\<close>

definition round_half_even :: "rat \<Rightarrow> int" where
  "round_half_even x =
     (let n = \<lfloor>x\<rfloor>; d = x - of_int n in
      if d < 1/2 then n else if 1/2 < d then n + 1 else if even n then n else n + 1)"

text \<open>\<open>$round: [x, p]\<close> on a number; \<open>null\<close> (an average over no prices) stays \<open>null\<close>.\<close>

definition round_to :: "nat \<Rightarrow> money \<Rightarrow> money" where
  "round_to p x = of_int (round_half_even (x * 10 ^ p)) / 10 ^ p"

definition mongo_round :: "money option \<Rightarrow> nat \<Rightarrow> money option" where
  "mongo_round v p = map_option (round_to p) v"

lemma round_half_even_dist: "\<bar>of_int (round_half_even x) - x\<bar> \<le> 1/2"
proof -
  define n where "n = \<lfloor>x\<rfloor>"
  have lo: "of_int n \<le> x" unfolding n_def by (rule of_int_floor_le)
  have hi: "x < of_int n + 1" unfolding n_def using floor_eq_iff by blast
  have eq: "round_half_even x = (if x - of_int n < 1/2 then n else if 1/2 < x - of_int n then n + 1
              else if even n then n else n + 1)"
    by (simp add: round_half_even_def Let_def n_def)
  show ?thesis
    using lo hi unfolding eq by (auto simp: abs_le_iff)
qed

lemma round_half_even_of_int [simp]: "round_half_even (of_int k) = k"
  by (simp add: round_half_even_def)

lemma round_half_even_numeral [simp]: "round_half_even (numeral n) = numeral n"
  using round_half_even_of_int [of "numeral n"] by simp

lemma floor_numeral_divide_rat [simp]:
  "\<lfloor>(numeral a :: rat) / numeral b\<rfloor> = numeral a div numeral b"
  using floor_divide_of_int_eq [of "numeral a" "numeral b", where 'a = rat] by simp

text \<open>
  C15: \<open>$round\<close> to \<open>p\<close> places moves a value by at most half a unit of the last place.
\<close>

theorem round_to_error_bound: "\<bar>round_to p x - x\<bar> \<le> 1 / (2 * 10 ^ p)"
proof -
  have pos: "(0::rat) < 10 ^ p" by simp
  have "\<bar>of_int (round_half_even (x * 10 ^ p)) - x * 10 ^ p\<bar> \<le> 1/2"
    by (rule round_half_even_dist)
  then have "\<bar>of_int (round_half_even (x * 10 ^ p)) - x * 10 ^ p\<bar> / 10 ^ p \<le> (1/2) / 10 ^ p"
    using pos by (rule divide_right_mono [OF _ less_imp_le])
  moreover have "(of_int (round_half_even (x * 10 ^ p)) - x * 10 ^ p) / 10 ^ p = round_to p x - x"
    using pos by (simp add: round_to_def diff_divide_distrib)
  then have "\<bar>of_int (round_half_even (x * 10 ^ p)) - x * 10 ^ p\<bar> / 10 ^ p = \<bar>round_to p x - x\<bar>"
    using pos by (metis abs_divide abs_of_pos)
  ultimately show ?thesis by simp
qed

lemma round_to_exact: "x * 10 ^ p = of_int k \<Longrightarrow> round_to p x = x"
  by (simp add: round_to_def divide_eq_eq)

section \<open>Printing integers\<close>

definition digit_char :: "nat \<Rightarrow> char" where
  "digit_char d = ''0123456789'' ! d"

fun nat_digits :: "nat \<Rightarrow> string" where
  "nat_digits n = (if n < 10 then [digit_char n] else nat_digits (n div 10) @ [digit_char (n mod 10)])"

declare nat_digits.simps [simp del]

text \<open>\<open>$toString\<close> of a 32-bit integer: its decimal digits, with a minus sign when
  negative.\<close>

definition int_to_string :: "int \<Rightarrow> string" where
  "int_to_string i =
     (if i < 0 then CHR ''-'' # nat_digits (nat (- i)) else nat_digits (nat i))"

text \<open>Reading a printed integer back.\<close>

definition digits_value :: "string \<Rightarrow> nat" where
  "digits_value s = foldl (\<lambda>a c. 10 * a + (of_char c - 48)) 0 s"

definition parse_int :: "string \<Rightarrow> int" where
  "parse_int s =
     (case s of
        c # ds \<Rightarrow> (if c = CHR ''-'' then - int (digits_value ds) else int (digits_value s))
      | [] \<Rightarrow> 0)"

lemma of_char_digit_char [simp]: "d < 10 \<Longrightarrow> of_char (digit_char d) = 48 + d"
proof -
  assume "d < 10"
  then have "d = 0 \<or> d = 1 \<or> d = 2 \<or> d = 3 \<or> d = 4 \<or> d = 5 \<or> d = 6 \<or> d = 7 \<or> d = 8 \<or> d = 9"
    by arith
  then show ?thesis by (auto simp: digit_char_def)
qed

lemma digits_value_snoc [simp]:
  "digits_value (s @ [c]) = 10 * digits_value s + (of_char c - 48)"
  by (simp add: digits_value_def)

lemma digits_value_nat_digits [simp]: "digits_value (nat_digits n) = n"
proof (induction n rule: nat_digits.induct)
  case (1 n)
  show ?case
  proof (cases "n < 10")
    case True
    then show ?thesis
      by (simp add: nat_digits.simps [of n] digits_value_def)
  next
    case False
    then have "digits_value (nat_digits (n div 10)) = n div 10" using "1.IH" by simp
    with False show ?thesis by (simp add: nat_digits.simps [of n])
  qed
qed

lemma nat_digits_head:
  "\<exists>d ds. nat_digits n = digit_char d # ds \<and> d < 10"
proof (induction n rule: nat_digits.induct)
  case (1 n)
  show ?case
  proof (cases "n < 10")
    case True
    then show ?thesis by (auto simp: nat_digits.simps [of n])
  next
    case False
    with "1.IH" obtain d ds where "nat_digits (n div 10) = digit_char d # ds" and "d < 10"
      by blast
    with False show ?thesis by (auto simp: nat_digits.simps [of n])
  qed
qed

lemma digit_char_not_minus: "d < 10 \<Longrightarrow> digit_char d \<noteq> CHR ''-''"
proof
  assume "d < 10" and "digit_char d = CHR ''-''"
  then have "of_char (digit_char d) = (of_char (CHR ''-'') :: nat)" by simp
  with \<open>d < 10\<close> show False by simp
qed

lemma parse_nat_digits: "parse_int (nat_digits n) = int n"
proof -
  obtain d ds where eq: "nat_digits n = digit_char d # ds" and "d < 10"
    using nat_digits_head by blast
  then have "digit_char d \<noteq> CHR ''-''" by (simp add: digit_char_not_minus)
  then have "parse_int (nat_digits n) = int (digits_value (nat_digits n))"
    by (simp add: parse_int_def eq)
  then show ?thesis by simp
qed

lemma parse_int_to_string [simp]: "parse_int (int_to_string i) = i"
proof (cases "i < 0")
  case True
  then have "parse_int (int_to_string i) = - int (digits_value (nat_digits (nat (- i))))"
    by (simp add: int_to_string_def parse_int_def)
  with True show ?thesis by simp
next
  case False
  then show ?thesis by (simp add: int_to_string_def parse_nat_digits)
qed

lemma int_to_string_inj: "int_to_string i = int_to_string j \<longleftrightarrow> i = j"
  by (metis parse_int_to_string)

section \<open>The decade arithmetic\<close>

text \<open>\<open>$subtract: ["$published_year", { $mod: ["$published_year", 10] }]\<close>.\<close>

definition decade_start :: "year \<Rightarrow> year" where
  "decade_start y = y - y smod 10"

text \<open>The \<open>$addFields\<close> of lines 199-212 on a document's year; a missing year makes
  both fields \<open>null\<close>.\<close>

definition decade_start_of :: "year option \<Rightarrow> year option" where
  "decade_start_of v = map_option decade_start v"

definition decade_label_of :: "year option \<Rightarrow> string option" where
  "decade_label_of v = map_option (\<lambda>y. int_to_string (decade_start y) @ ''s'') v"

definition decade_label :: "year option \<Rightarrow> string option" where
  "decade_label d = map_option (\<lambda>s. int_to_string s @ ''s'') d"

lemma decade_label_of_start: "decade_label_of v = decade_label (decade_start_of v)"
  by (simp add: decade_label_of_def decade_label_def decade_start_of_def option.map_comp comp_def)

lemma decade_label_inj: "decade_label d = decade_label e \<longleftrightarrow> d = e"
  by (cases d; cases e) (auto simp: decade_label_def int_to_string_inj)

lemma decade_start_nonneg: "0 \<le> y \<Longrightarrow> decade_start y = y - y mod 10"
  by (simp add: decade_start_def smod_mod_positive)

lemma decade_start_neg: "y < 0 \<Longrightarrow> decade_start y = - decade_start (- y)"
  by (simp add: decade_start_def)

lemma decade_start_dvd: "10 dvd decade_start y"
  by (simp add: decade_start_def minus_smod_eq_mult_sdiv)

lemma smod_10_small: "-10 < y \<Longrightarrow> y < 10 \<Longrightarrow> y smod 10 = (y :: int)"
  by (simp add: smod_int_alt_def abs_if sgn_if)

section \<open>Properties of the expression operators\<close>

text \<open>
  C14: \<open>$round\<close> to 2 places sends a tie (a value exactly half-way between two cents) to
  the even cent: \<open>k/100 + 1/200\<close> becomes \<open>k/100\<close> when \<open>k\<close> is even and
  \<open>(k+1)/100\<close> when it is odd.
\<close>

theorem round_to_ties_even:
  "round_to 2 (of_int k / 100 + 1 / 200) = of_int (if even k then k else k + 1) / 100"
proof -
  have scaled: "(of_int k / 100 + 1 / 200) * 10 ^ 2 = of_int k + (1 / 2 :: rat)"
    by simp
  have fl: "\<lfloor>of_int k + (1 / 2 :: rat)\<rfloor> = k"
    by (simp add: floor_eq_iff)
  show ?thesis
    by (simp only: round_to_def scaled) (simp add: round_half_even_def Let_def fl)
qed

text \<open>
  C16: For a year that is not negative the decade start is the year with its last digit
  set to 0, the largest multiple of 10 not above the year, as the specification says.
\<close>

theorem decade_start_nonneg_range:
  assumes "0 \<le> y"
  shows "decade_start y = y - y mod 10 \<and> decade_start y \<le> y \<and> y < decade_start y + 10 \<and>
         10 dvd decade_start y"
proof -
  have eq: "decade_start y = y - y mod 10" using assms by (rule decade_start_nonneg)
  have "0 \<le> y mod 10" "y mod 10 < 10" by simp_all
  with eq show ?thesis by (simp add: decade_start_dvd)
qed

text \<open>
  C17: \<open>$mod\<close> truncates, so a negative year is moved up to its decade start, not down:
  every year from -9 to 9 gets the decade start 0 and the label "0s", a 19-year decade.
\<close>

theorem decade_label_near_zero:
  assumes "-10 < y" and "y < 10"
  shows "decade_start_of (Some y) = Some 0 \<and> decade_label_of (Some y) = Some ''0s''"
proof -
  have "decade_start y = 0" using assms by (simp add: decade_start_def smod_10_small)
  then show ?thesis
    by (simp add: decade_start_of_def decade_label_of_def int_to_string_def nat_digits.simps
                  digit_char_def)
qed

text \<open>
  C18: The decade label is a faithful print of the decade start: dropping the trailing
  "s" and reading the digits back gives the decade start again.
\<close>

theorem decade_label_roundtrip:
  "map_option (\<lambda>s. parse_int (butlast s)) (decade_label d) = d"
  by (cases d) (simp_all add: decade_label_def)

section \<open>Witnesses\<close>

theorem decade_start_nonneg_range_witness:
  "0 \<le> (1945 :: int) \<and> decade_start 1945 = 1940 \<and> decade_start 1945 \<le> 1945 \<and>
   (1945 :: int) < decade_start 1945 + 10"
proof -
  have h: "0 \<le> (1945 :: int)" by simp
  from decade_start_nonneg_range [OF h] h show ?thesis by simp
qed

theorem decade_label_near_zero_witness:
  "-10 < (-5 :: int) \<and> (-5 :: int) < 10 \<and> decade_label_of (Some (-5)) = Some ''0s'' \<and>
   decade_label_of (Some 5) = Some ''0s''"
proof -
  have h1: "-10 < (-5 :: int)" and h2: "(-5 :: int) < 10" and h3: "-10 < (5 :: int)"
    and h4: "(5 :: int) < 10" by simp_all
  from decade_label_near_zero [OF h1 h2] decade_label_near_zero [OF h3 h4] show ?thesis by simp
qed

end
