(* ===== verification/Aggregations.thy ===== *)
theory Aggregations
  imports Books Grouping Expressions
begin

text \<open>
  The three aggregation pipelines of \<open>src/queries.js\<close>, stage by stage:
  \<^item> Aggregation 1 (lines 148-167): \<open>$group\<close> by genre with \<open>$avg\<close> of the price and a
    count, \<open>$project\<close> rounding the average to 2 places, \<open>$sort\<close> by the rounded
    average, largest first;
  \<^item> Aggregation 2 (lines 175-187): \<open>$group\<close> by author with a count, \<open>$sort\<close> by the
    count, largest first, \<open>$limit: 1\<close>, \<open>$project\<close>;
  \<^item> Aggregation 3 (lines 197-243): \<open>$addFields\<close> with the decade label and start,
    \<open>$group\<close> by the label with \<open>$first\<close> start, count, \<open>$push\<close> of a sample and
    \<open>$avg\<close> price, \<open>$project\<close> rounding the average and slicing the samples to 3,
    \<open>$sort\<close> by the decade start, smallest first.
  MongoDB does not fix the order of \<open>$group\<close>'s output nor the order of ties in
  \<open>$sort\<close>; the model takes the order of first occurrence and a stable sort, one
  admissible choice, and every property below that does not name the tie order holds for
  any other choice.
\<close>

section \<open>Aggregation 1: average price per genre\<close>

record genre_summary =
  gs_genre :: string
  gs_average_price :: "money option"
  gs_count :: nat

text \<open>\<open>{ $group: { _id: "$genre", averagePrice: { $avg: "$price" }, count: { $sum: 1 } } }\<close>\<close>

definition genre_group :: "book list \<Rightarrow> (string \<times> money option \<times> nat) list" where
  "genre_group coll = map (\<lambda>(g, ms). (g, avg_opt (map price ms), length ms)) (group_by genre coll)"

text \<open>\<open>{ $project: { genre: "$_id", averagePrice: { $round: ["$averagePrice", 2] }, count: 1 } }\<close>\<close>

definition genre_project :: "string \<times> money option \<times> nat \<Rightarrow> genre_summary" where
  "genre_project r = (case r of (g, a, c) \<Rightarrow>
     \<lparr>gs_genre = g, gs_average_price = mongo_round a 2, gs_count = c\<rparr>)"

text \<open>\<open>{ $sort: { averagePrice: -1 } }\<close>\<close>

definition avg_price_per_genre :: "book list \<Rightarrow> genre_summary list" where
  "avg_price_per_genre coll = sort_desc_key gs_average_price (map genre_project (genre_group coll))"

section \<open>Aggregation 2: the author with the most books\<close>

record author_summary =
  as_author :: string
  as_book_count :: nat

text \<open>\<open>{ $group: { _id: "$author", bookCount: { $sum: 1 } } }\<close>\<close>

definition author_group :: "book list \<Rightarrow> (string \<times> nat) list" where
  "author_group coll = map (\<lambda>(a, ms). (a, length ms)) (group_by author coll)"

text \<open>\<open>$sort: { bookCount: -1 }\<close>, \<open>$limit: 1\<close>, \<open>$project: { author: "$_id", bookCount: 1 }\<close>\<close>

definition top_author :: "book list \<Rightarrow> author_summary list" where
  "top_author coll =
     map (\<lambda>(a, c). \<lparr>as_author = a, as_book_count = c\<rparr>) (take 1 (sort_desc_key snd (author_group coll)))"

text \<open>Lines 189-193: the line printed from the report, \<open>topAuthor[0]\<close> when it is not empty.\<close>

datatype author_line = Top_author_line string nat | No_authors_found

definition author_report_line :: "author_summary list \<Rightarrow> author_line" where
  "author_report_line rs =
     (if 0 < length rs then Top_author_line (as_author (rs ! 0)) (as_book_count (rs ! 0))
      else No_authors_found)"

section \<open>Aggregation 3: books by publication decade\<close>

record sample_book =
  sb_title :: string
  sb_author :: string
  sb_year :: "year option"
  sb_price :: "money option"

record decade_group_row =
  dg_id :: "string option"
  dg_decade_start :: "year option"
  dg_book_count :: nat
  dg_books :: "sample_book list"
  dg_average_price :: "money option"

record decade_summary =
  ds_decade :: "string option"
  ds_decade_start :: "year option"
  ds_book_count :: nat
  ds_average_price :: "money option"
  ds_sample_books :: "sample_book list"

text \<open>\<open>$addFields: { decade: ..., decadeStart: ... }\<close>: a document with its two new fields.\<close>

definition add_decade_fields :: "book \<Rightarrow> string option \<times> year option \<times> book" where
  "add_decade_fields b =
     (decade_label_of (published_year b), decade_start_of (published_year b), b)"

text \<open>\<open>$push: { title: "$title", author: "$author", year: "$published_year", price: "$price" }\<close>\<close>

definition sample_of :: "book \<Rightarrow> sample_book" where
  "sample_of b = \<lparr>sb_title = title b, sb_author = author b, sb_year = published_year b,
                  sb_price = price b\<rparr>"

text \<open>The \<open>$group\<close> stage of lines 214-229 on one group of extended documents.\<close>

definition decade_accumulate ::
  "string option \<times> (string option \<times> year option \<times> book) list \<Rightarrow> decade_group_row" where
  "decade_accumulate g = (case g of (k, ms) \<Rightarrow>
     \<lparr>dg_id = k,
      dg_decade_start = (case ms of [] \<Rightarrow> None | m # _ \<Rightarrow> fst (snd m)),
      dg_book_count = length ms,
      dg_books = map (\<lambda>m. sample_of (snd (snd m))) ms,
      dg_average_price = avg_opt (map (\<lambda>m. price (snd (snd m))) ms)\<rparr>)"

definition decade_group :: "book list \<Rightarrow> decade_group_row list" where
  "decade_group coll = map decade_accumulate (group_by fst (map add_decade_fields coll))"

text \<open>The \<open>$project\<close> stage of lines 231-238.\<close>

definition decade_project :: "decade_group_row \<Rightarrow> decade_summary" where
  "decade_project r =
     \<lparr>ds_decade = dg_id r, ds_decade_start = dg_decade_start r, ds_book_count = dg_book_count r,
      ds_average_price = mongo_round (dg_average_price r) 2,
      ds_sample_books = take 3 (dg_books r)\<rparr>"

text \<open>\<open>{ $sort: { decadeStart: 1 } }\<close>\<close>

definition books_by_decade :: "book list \<Rightarrow> decade_summary list" where
  "books_by_decade coll = sort_key ds_decade_start (map decade_project (decade_group coll))"

section \<open>Abstract descriptions of the reports\<close>

text \<open>What a row of each report promises, stated over the whole collection rather than
  over the pipeline's intermediate tables.\<close>

definition genre_summary_spec :: "book list \<Rightarrow> string \<Rightarrow> genre_summary" where
  "genre_summary_spec coll g =
     (let ms = filter (\<lambda>b. genre b = g) coll in
      \<lparr>gs_genre = g, gs_average_price = mongo_round (avg_opt (map price ms)) 2,
       gs_count = length ms\<rparr>)"

definition decade_summary_spec :: "book list \<Rightarrow> year option \<Rightarrow> decade_summary" where
  "decade_summary_spec coll d =
     (let ms = filter (\<lambda>b. decade_start_of (published_year b) = d) coll in
      \<lparr>ds_decade = decade_label d, ds_decade_start = d, ds_book_count = length ms,
       ds_average_price = mongo_round (avg_opt (map price ms)) 2,
       ds_sample_books = take 3 (map sample_of ms)\<rparr>)"

section \<open>Properties of aggregation 1\<close>

lemma genre_group_spec:
  "genre_group coll =
     map (\<lambda>g. (g, avg_opt (map price (filter (\<lambda>b. genre b = g) coll)),
               length (filter (\<lambda>b. genre b = g) coll)))
         (remdups_first (map genre coll))"
  by (simp add: genre_group_def group_by_eq_spec group_spec_def comp_def)

lemma genre_rows_spec:
  "map genre_project (genre_group coll) = map (genre_summary_spec coll) (remdups_first (map genre coll))"
  by (simp add: genre_group_spec genre_project_def genre_summary_spec_def Let_def)


text \<open>
  C3: The report of aggregation 1 has exactly one row per genre of the collection, and the
  row of a genre holds the number of its books and the mean of their prices rounded to
  2 places (in some order: C2 gives the order).
\<close>

theorem avg_price_per_genre_rows:
  "mset (avg_price_per_genre coll) = mset (map (genre_summary_spec coll) (remdups_first (map genre coll)))"
  by (simp add: avg_price_per_genre_def genre_rows_spec)

text \<open>
  C4: The counts of aggregation 1 add up to the number of books in the collection.
\<close>

theorem genre_counts_total:
  "(\<Sum>r\<leftarrow>avg_price_per_genre coll. gs_count r) = length coll"
proof -
  have "(\<Sum>r\<leftarrow>avg_price_per_genre coll. gs_count r) =
        (\<Sum>r\<leftarrow>map genre_project (genre_group coll). gs_count r)"
    by (metis avg_price_per_genre_def mset_map mset_sort_desc_key sum_mset_sum_list)
  also have "\<dots> = (\<Sum>g\<leftarrow>group_spec genre coll. length (snd g))"
    by (simp add: genre_group_def group_by_eq_spec genre_project_def comp_def case_prod_beta)
  also have "\<dots> = length coll"
    by (rule sum_group_sizes)
  finally show ?thesis .
qed


section \<open>Properties of aggregation 2\<close>

abbreviation books_of :: "book list \<Rightarrow> string \<Rightarrow> nat" where
  "books_of coll a \<equiv> length (filter (\<lambda>b. author b = a) coll)"

lemma author_group_spec:
  "author_group coll = map (\<lambda>a. (a, books_of coll a)) (remdups_first (map author coll))"
  by (simp add: author_group_def group_by_eq_spec group_spec_def comp_def)

lemma top_author_head:
  assumes "sort_desc_key snd (author_group coll) = y # ys"
  shows "top_author coll = [\<lparr>as_author = fst y, as_book_count = snd y\<rparr>]"
  using assms by (simp add: top_author_def case_prod_beta)

lemma author_group_Nil_iff: "author_group coll = [] \<longleftrightarrow> coll = []"
  by (simp add: author_group_def group_by_eq_spec)

text \<open>
  C6: On a non-empty collection aggregation 2 returns one row: an author of the
  collection, with the number of their books, and no author has more books.
\<close>

theorem top_author_most_books:
  assumes "coll \<noteq> []"
  shows "\<exists>r. top_author coll = [r] \<and> as_author r \<in> author ` set coll \<and>
             as_book_count r = books_of coll (as_author r) \<and>
             (\<forall>b\<in>set coll. books_of coll (author b) \<le> as_book_count r)"
proof -
  from assms have "sort_desc_key snd (author_group coll) \<noteq> []"
    by (simp add: author_group_Nil_iff)
  then obtain y ys where sorted: "sort_desc_key snd (author_group coll) = y # ys"
    by (cases "sort_desc_key snd (author_group coll)") auto
  then have "y \<in> set (author_group coll)"
    by (metis list.set_intros(1) set_sort_desc_key)
  then have y: "fst y \<in> author ` set coll" "snd y = books_of coll (fst y)"
    by (auto simp: author_group_spec)
  have "\<forall>b\<in>set coll. books_of coll (author b) \<le> snd y"
  proof
    fix b
    assume "b \<in> set coll"
    then have "(author b, books_of coll (author b)) \<in> set (author_group coll)"
      by (simp add: author_group_spec)
    from sort_desc_key_hd_max [OF sorted this] show "books_of coll (author b) \<le> snd y"
      by simp
  qed
  with y show ?thesis by (simp add: top_author_head [OF sorted])
qed

text \<open>
  C7: Aggregation 2 returns no row exactly when the collection is empty, and that is
  exactly when the script takes its \<open>else\<close> branch and prints "No authors found".
\<close>

theorem top_author_empty:
  "(top_author coll = [] \<longleftrightarrow> coll = []) \<and>
   (author_report_line (top_author coll) = No_authors_found \<longleftrightarrow> coll = [])"
  by (simp add: top_author_def author_group_Nil_iff author_report_line_def)


text \<open>
  The example of the specification: on three books by authors A, A and B (B not A),
  aggregation 2 returns A with 2 books.
\<close>

theorem top_author_example:
  assumes "author b1 = a" and "author b2 = a" and "author b3 = a'" and "a' \<noteq> a"
  shows "top_author [b1, b2, b3] = [\<lparr>as_author = a, as_book_count = 2\<rparr>]"
  using assms by (simp add: top_author_def author_group_def group_by_def)

section \<open>Properties of aggregation 3\<close>

abbreviation start_of_book :: "book \<Rightarrow> year option" where
  "start_of_book b \<equiv> decade_start_of (published_year b)"

lemma fst_add_decade_fields: "fst (add_decade_fields b) = decade_label (start_of_book b)"
  by (simp add: add_decade_fields_def decade_label_of_start)

lemma filter_add_decade_fields:
  "filter (\<lambda>m. fst m = decade_label d) (map add_decade_fields coll) =
   map add_decade_fields (filter (\<lambda>b. start_of_book b = d) coll)"
  by (induction coll) (simp_all add: fst_add_decade_fields decade_label_inj)

lemma remdups_first_decade_labels:
  "remdups_first (map fst (map add_decade_fields coll)) =
   map decade_label (remdups_first (map start_of_book coll))"
proof -
  have "map fst (map add_decade_fields coll) = map decade_label (map start_of_book coll)"
    by (simp add: fst_add_decade_fields)
  moreover have "remdups_first (map decade_label (map start_of_book coll)) =
                 map decade_label (remdups_first (map start_of_book coll))"
    by (rule remdups_first_map_inj) (simp add: inj_on_def decade_label_inj)
  ultimately show ?thesis by (simp only:)
qed

lemma decade_accumulate_group:
  assumes "d \<in> start_of_book ` set coll"
  shows "decade_project (decade_accumulate
           (decade_label d, map add_decade_fields (filter (\<lambda>b. start_of_book b = d) coll))) =
         decade_summary_spec coll d"
proof -
  obtain m ms where ms: "filter (\<lambda>b. start_of_book b = d) coll = m # ms"
    using assms by (cases "filter (\<lambda>b. start_of_book b = d) coll") (auto simp: filter_empty_conv)
  then have "start_of_book m = d"
    by (metis (mono_tags) filter_eq_ConsD)
  with ms show ?thesis
    by (simp add: decade_accumulate_def decade_project_def decade_summary_spec_def
                  add_decade_fields_def comp_def)
qed

lemma decade_rows_spec:
  "map decade_project (decade_group coll) =
   map (decade_summary_spec coll) (remdups_first (map start_of_book coll))"
proof -
  have "group_by fst (map add_decade_fields coll) =
        map (\<lambda>d. (decade_label d, map add_decade_fields (filter (\<lambda>b. start_of_book b = d) coll)))
            (remdups_first (map start_of_book coll))"
    unfolding group_by_eq_spec group_spec_def remdups_first_decade_labels
    by (simp only: map_map comp_def filter_add_decade_fields)
  then have "map decade_project (decade_group coll) =
        map (\<lambda>d. decade_project (decade_accumulate
               (decade_label d, map add_decade_fields (filter (\<lambda>b. start_of_book b = d) coll))))
            (remdups_first (map start_of_book coll))"
    by (simp add: decade_group_def)
  also have "\<dots> = map (decade_summary_spec coll) (remdups_first (map start_of_book coll))"
    by (rule map_cong) (simp_all add: decade_accumulate_group)
  finally show ?thesis .
qed


text \<open>
  C11: The report of aggregation 3 has one row per decade start of the collection; the row
  of a decade holds its label, the number of its books, their mean price rounded to 2
  places, and as samples the first three of its books in collection order. Grouping by the
  printed label groups exactly as grouping by the decade start would.
\<close>

theorem books_by_decade_rows:
  "mset (books_by_decade coll) =
   mset (map (decade_summary_spec coll) (remdups_first (map (\<lambda>b. decade_start_of (published_year b)) coll)))"
  by (simp add: books_by_decade_def decade_rows_spec)

text \<open>
  C12: Every row of aggregation 3 keeps at most three sample books, and they are the first
  books of that decade in collection order, whatever their prices.
\<close>

theorem decade_samples_first_three:
  assumes "r \<in> set (books_by_decade coll)"
  shows "ds_sample_books r =
           take 3 (map sample_of (filter (\<lambda>b. decade_start_of (published_year b) = ds_decade_start r) coll)) \<and>
         length (ds_sample_books r) \<le> 3"
proof -
  have "r \<in> set (map (decade_summary_spec coll) (remdups_first (map start_of_book coll)))"
    using assms by (simp add: books_by_decade_def decade_rows_spec)
  then obtain d where "r = decade_summary_spec coll d" by auto
  then show ?thesis by (simp add: decade_summary_spec_def Let_def)
qed

text \<open>
  The example of the specification: books published in 1945, 1949 and 1951 form two
  groups, the 1940s with 2 books and the 1950s with 1, in this order.
\<close>

theorem books_by_decade_example:
  assumes "published_year b1 = Some 1945" and "published_year b2 = Some 1949"
    and "published_year b3 = Some 1951"
  shows "map (\<lambda>r. (ds_decade r, ds_decade_start r, ds_book_count r)) (books_by_decade [b1, b2, b3]) =
         [(Some ''1940s'', Some 1940, 2), (Some ''1950s'', Some 1950, 1)]"
proof -
  have s: "decade_start 1945 = 1940" "decade_start 1949 = 1940" "decade_start 1951 = 1950"
    by (simp_all add: decade_start_def)
  have l: "int_to_string 1940 = ''1940''" "int_to_string 1950 = ''1950''"
    by (simp_all add: int_to_string_def nat_digits.simps digit_char_def)
  show ?thesis
    using assms s l
    by (simp add: books_by_decade_def decade_rows_spec decade_summary_spec_def
                  decade_start_of_def decade_label_def remdups_first_def)
qed

section \<open>Witnesses\<close>


theorem top_author_most_books_witness:
  "[book_animal_farm, book_hobbit, book_1984] \<noteq> [] \<and>
   top_author [book_animal_farm, book_hobbit, book_1984] =
     [\<lparr>as_author = ''George Orwell'', as_book_count = 2\<rparr>]"
proof -
  let ?coll = "[book_animal_farm, book_hobbit, book_1984]"
  have h: "?coll \<noteq> []" by simp
  from top_author_most_books [OF h] obtain r where
    r: "top_author ?coll = [r]" and mem: "as_author r \<in> author ` set ?coll"
    and cnt: "as_book_count r = books_of ?coll (as_author r)"
    and mx: "\<forall>b\<in>set ?coll. books_of ?coll (author b) \<le> as_book_count r"
    by blast
  from mx have "books_of ?coll (author book_1984) \<le> as_book_count r" by simp
  then have ge: "2 \<le> as_book_count r" by simp
  from mem have "as_author r = ''George Orwell'' \<or> as_author r = ''J.R.R. Tolkien''" by auto
  then have "as_author r = ''George Orwell''"
  proof
    assume "as_author r = ''J.R.R. Tolkien''"
    with cnt ge show ?thesis by simp
  qed
  with cnt have "r = \<lparr>as_author = ''George Orwell'', as_book_count = 2\<rparr>" by simp
  with h r show ?thesis by simp
qed


theorem top_author_example_witness:
  "author book_1984 = ''George Orwell'' \<and> author book_animal_farm = ''George Orwell'' \<and>
   author book_hobbit = ''J.R.R. Tolkien'' \<and>
   ''J.R.R. Tolkien'' \<noteq> ''George Orwell'' \<and>
   top_author [book_1984, book_animal_farm, book_hobbit] =
     [\<lparr>as_author = ''George Orwell'', as_book_count = 2\<rparr>]"
proof -
  have h1: "author book_1984 = ''George Orwell''" and h2: "author book_animal_farm = ''George Orwell''"
    and h3: "author book_hobbit = ''J.R.R. Tolkien''" and h4: "''J.R.R. Tolkien'' \<noteq> ''George Orwell''"
    by simp_all
  from top_author_example [OF h1 h2 h3 h4] h1 h2 h3 h4 show ?thesis by blast
qed

theorem decade_samples_first_three_witness:
  "decade_summary_spec [book_1984, book_animal_farm] (Some 1940)
     \<in> set (books_by_decade [book_1984, book_animal_farm]) \<and>
   ds_sample_books (decade_summary_spec [book_1984, book_animal_farm] (Some 1940)) =
     [sample_of book_1984, sample_of book_animal_farm]"
proof -
  have s: "decade_start 1949 = 1940" "decade_start 1945 = 1940" by (simp_all add: decade_start_def)
  have h: "decade_summary_spec [book_1984, book_animal_farm] (Some 1940)
             \<in> set (books_by_decade [book_1984, book_animal_farm])"
    using s by (simp add: books_by_decade_def decade_rows_spec decade_start_of_def remdups_first_def)
  from decade_samples_first_three [OF h] h s show ?thesis
    by (simp add: decade_summary_spec_def decade_start_of_def)
qed

theorem books_by_decade_example_witness:
  "published_year book_animal_farm = Some 1945 \<and> published_year book_1984 = Some 1949 \<and>
   published_year book_catcher = Some 1951 \<and>
   map (\<lambda>r. (ds_decade r, ds_decade_start r, ds_book_count r))
       (books_by_decade [book_animal_farm, book_1984, book_catcher]) =
     [(Some ''1940s'', Some 1940, 2), (Some ''1950s'', Some 1950, 1)]"
proof -
  have h1: "published_year book_animal_farm = Some 1945"
    and h2: "published_year book_1984 = Some 1949"
    and h3: "published_year book_catcher = Some 1951" by simp_all
  from books_by_decade_example [OF h1 h2 h3] show ?thesis by simp
qed

end
