(* ===== verification/Writes.thy ===== *)
theory Writes
  imports Books
begin

text \<open>
  The two writes of \<open>src/queries.js\<close>: Task 4 (lines 58-68) sets the price of the first
  book titled "1984" with \<open>updateOne\<close> and reports from \<open>modifiedCount\<close>; Task 5 (lines
  75-81) removes the first book titled "The Great Gatsby" with \<open>deleteOne\<close> and reports
  from \<open>deletedCount\<close>. Both act on the first matching document in natural order and leave
  every other document as it was. The collection is passed in and the new collection
  returned, with the counts the driver reports.
\<close>

section \<open>updateOne with $set\<close>

record update_result =
  matched_count :: nat
  modified_count :: nat

text \<open>The server applies the update to the first match; a \<open>$set\<close> that leaves the
  document as it was is a no-op and is not counted as a modification.\<close>

fun update_first ::
  "(book \<Rightarrow> bool) \<Rightarrow> (book \<Rightarrow> book) \<Rightarrow> book list \<Rightarrow> update_result \<times> book list" where
  "update_first P u [] = (\<lparr>matched_count = 0, modified_count = 0\<rparr>, [])"
| "update_first P u (b # bs) =
     (if P b then (\<lparr>matched_count = 1, modified_count = (if u b = b then 0 else 1)\<rparr>, u b # bs)
      else (case update_first P u bs of (r, bs') \<Rightarrow> (r, b # bs')))"

text \<open>\<open>{ $set: { price: newPrice } }\<close>\<close>

definition set_price :: "money \<Rightarrow> book \<Rightarrow> book" where
  "set_price p b = b\<lparr>price := Some p\<rparr>"

definition update_one :: "filter \<Rightarrow> money \<Rightarrow> book list \<Rightarrow> update_result \<times> book list" where
  "update_one q p coll = update_first (matches q) (set_price p) coll"

section \<open>deleteOne\<close>

fun delete_first :: "(book \<Rightarrow> bool) \<Rightarrow> book list \<Rightarrow> nat \<times> book list" where
  "delete_first P [] = (0, [])"
| "delete_first P (b # bs) =
     (if P b then (1, bs) else (case delete_first P bs of (n, bs') \<Rightarrow> (n, b # bs')))"

definition delete_one :: "filter \<Rightarrow> book list \<Rightarrow> nat \<times> book list" where
  "delete_one q coll = delete_first (matches q) coll"

section \<open>Tasks 4 and 5 of the script\<close>

text \<open>\<open>{ title: bookTitle }\<close>\<close>

definition title_query :: "string \<Rightarrow> filter" where
  "title_query t = [Eq Title (BStr t)]"

datatype write_message =
    Updated_price string money
  | No_book_found string
  | Deleted_book string

text \<open>Lines 64-68 and 77-81: the message is chosen from the reported count.\<close>

definition update_message :: "string \<Rightarrow> money \<Rightarrow> update_result \<Rightarrow> write_message" where
  "update_message t p r = (if 0 < modified_count r then Updated_price t p else No_book_found t)"

definition delete_message :: "string \<Rightarrow> nat \<Rightarrow> write_message" where
  "delete_message t n = (if 0 < n then Deleted_book t else No_book_found t)"

definition task4_update_price :: "book list \<Rightarrow> write_message \<times> book list" where
  "task4_update_price coll =
     (case update_one (title_query ''1984'') (999 / 100) coll of
        (r, coll') \<Rightarrow> (update_message ''1984'' (999 / 100) r, coll'))"

definition task5_delete_book :: "book list \<Rightarrow> write_message \<times> book list" where
  "task5_delete_book coll =
     (case delete_one (title_query ''The Great Gatsby'') coll of
        (n, coll') \<Rightarrow> (delete_message ''The Great Gatsby'' n, coll'))"

section \<open>Basic facts\<close>

lemma matches_title_query [simp]: "matches (title_query t) b \<longleftrightarrow> title b = t"
  by (simp add: title_query_def)

lemma set_price_id_iff: "set_price p b = b \<longleftrightarrow> price b = Some p"
  by (cases b) (auto simp: set_price_def)

lemma title_set_price [simp]: "title (set_price p b) = title b"
  by (simp add: set_price_def)

lemma update_first_no_match:
  "\<not> list_ex P coll \<Longrightarrow> update_first P u coll = (\<lparr>matched_count = 0, modified_count = 0\<rparr>, coll)"
  by (induction coll) auto

lemma update_first_split:
  "\<not> list_ex P as \<Longrightarrow> P b \<Longrightarrow>
   update_first P u (as @ b # bs) =
     (\<lparr>matched_count = 1, modified_count = (if u b = b then 0 else 1)\<rparr>, as @ u b # bs)"
  by (induction as) auto

lemma delete_first_no_match: "\<not> list_ex P coll \<Longrightarrow> delete_first P coll = (0, coll)"
  by (induction coll) auto

lemma delete_first_split:
  "\<not> list_ex P as \<Longrightarrow> P b \<Longrightarrow> delete_first P (as @ b # bs) = (1, as @ bs)"
  by (induction as) auto

lemma first_match_split:
  "list_ex P coll \<Longrightarrow> \<exists>as b bs. coll = as @ b # bs \<and> \<not> list_ex P as \<and> P b"
proof (induction coll)
  case Nil
  then show ?case by simp
next
  case (Cons c cs)
  show ?case
  proof (cases "P c")
    case True
    then show ?thesis by (intro exI [of _ "[]"] exI [of _ c] exI [of _ cs]) simp
  next
    case False
    with Cons obtain as b bs where "cs = as @ b # bs" "\<not> list_ex P as" "P b" by auto
    with False show ?thesis by (intro exI [of _ "c # as"] exI [of _ b] exI [of _ bs]) simp
  qed
qed

lemma list_ex_matches_find: "list_ex (matches q) coll \<longleftrightarrow> find q coll \<noteq> []"
  by (induction coll) auto

lemma find_update_first_title:
  "find (title_query t) (snd (update_first (matches (title_query t)) (set_price p) coll)) =
   (case find (title_query t) coll of [] \<Rightarrow> [] | b # bs \<Rightarrow> set_price p b # bs)"
  by (induction coll) (auto split: prod.split list.split)

lemma strip_price_set_price [simp]: "(set_price p b)\<lparr>price := None\<rparr> = b\<lparr>price := None\<rparr>"
  by (simp add: set_price_def)

lemma update_first_strip_price:
  "map (\<lambda>b. b\<lparr>price := None\<rparr>) (snd (update_first P (set_price p) coll)) =
   map (\<lambda>b. b\<lparr>price := None\<rparr>) coll"
  by (induction coll) (auto split: prod.split)

lemma delete_first_remove1:
  "delete_first P coll = (case filter P coll of [] \<Rightarrow> (0, coll) | b # _ \<Rightarrow> (1, remove1 b coll))"
  by (induction coll) (auto split: list.split prod.split dest: filter_Cons_head)

lemma filter_remove1_first:
  "filter P coll = b # bs \<Longrightarrow> filter P (remove1 b coll) = bs"
  by (induction coll) (auto dest: filter_Cons_head)

section \<open>Properties of the writes\<close>

text \<open>
  C19: \<open>updateOne\<close> sets the price of the first matching document only; it reports one
  match, and one modification unless the document already had that price.
\<close>

theorem update_one_first_match:
  assumes "\<not> list_ex (matches q) as" and "matches q b"
  shows "update_one q p (as @ b # bs) =
           (\<lparr>matched_count = 1, modified_count = (if price b = Some p then 0 else 1)\<rparr>,
            as @ b\<lparr>price := Some p\<rparr> # bs)"
  using assms by (simp add: update_one_def update_first_split set_price_id_iff)
    (simp add: set_price_def)

text \<open>
  C20: When no document matches, \<open>updateOne\<close> reports no match and no modification and
  leaves the collection unchanged.
\<close>

theorem update_one_no_match:
  assumes "find q coll = []"
  shows "update_one q p coll = (\<lparr>matched_count = 0, modified_count = 0\<rparr>, coll)"
  using assms by (simp add: update_one_def update_first_no_match list_ex_matches_find)

text \<open>
  C21: \<open>updateOne\<close> with \<open>$set: { price }\<close> changes nothing but prices: with the
  prices erased, the collection after the update is the collection before.
\<close>

theorem update_one_only_prices:
  "map (\<lambda>b. b\<lparr>price := None\<rparr>) (snd (update_one q p coll)) = map (\<lambda>b. b\<lparr>price := None\<rparr>) coll"
  by (simp add: update_one_def update_first_strip_price)

text \<open>
  After Task 4's update, a find by the same title returns the same books in the same
  order, the first of them with the new price.
\<close>

theorem find_after_update_one:
  "find (title_query t) (snd (update_one (title_query t) p coll)) =
   (case find (title_query t) coll of [] \<Rightarrow> [] | b # bs \<Rightarrow> b\<lparr>price := Some p\<rparr> # bs)"
  by (simp add: update_one_def find_update_first_title set_price_def split: list.split)

text \<open>
  C23: Task 4 reports "No book found" when the book titled "1984" exists but already
  costs 9.99: the script reads \<open>modifiedCount\<close>, which is 0 for a no-op update, where
  it means \<open>matchedCount\<close>.
\<close>

theorem task4_misreports_unchanged_price:
  assumes "find (title_query ''1984'') coll = b # bs" and "price b = Some (999 / 100)"
  shows "fst (task4_update_price coll) = No_book_found ''1984''"
proof -
  from assms(1) have "list_ex (matches (title_query ''1984'')) coll"
    by (simp add: list_ex_matches_find)
  then obtain as c cs where split: "coll = as @ c # cs"
    and none: "\<not> list_ex (matches (title_query ''1984'')) as"
    and c: "matches (title_query ''1984'') c"
    by (blast dest: first_match_split)
  from split none c have "find (title_query ''1984'') coll = c # find (title_query ''1984'') cs"
    by (simp add: find_def list_ex_iff filter_empty_conv)
  with assms have "c = b" by simp
  with split none c assms(2) show ?thesis
    by (simp add: task4_update_price_def update_one_def update_first_split set_price_id_iff
                  update_message_def)
qed

text \<open>
  C24: \<open>deleteOne\<close> removes the first matching document only and keeps the order of
  the rest.
\<close>

theorem delete_one_first_match:
  assumes "\<not> list_ex (matches q) as" and "matches q b"
  shows "delete_one q (as @ b # bs) = (1, as @ bs)"
  using assms by (simp add: delete_one_def delete_first_split)

text \<open>
  C25: \<open>deleteOne\<close> removes the first occurrence of the first matching document and
  reports 1, or, when nothing matches, leaves the collection as it is and reports 0.
\<close>

theorem delete_one_remove1:
  "delete_one q coll =
     (case find q coll of [] \<Rightarrow> (0, coll) | b # _ \<Rightarrow> (1, remove1 b coll))"
  by (simp add: delete_one_def find_def delete_first_remove1)

text \<open>
  C26: Titles are not keys: \<open>deleteOne\<close> lowers the number of books with the deleted
  title by exactly one, so when Task 5's title occurs twice one copy stays.
\<close>

theorem delete_one_leaves_duplicates:
  "length (find q (snd (delete_one q coll))) = length (find q coll) - 1"
  by (simp add: delete_one_def find_def delete_first_remove1 filter_remove1_first split: list.split)

section \<open>Witnesses\<close>

theorem update_one_first_match_witness:
  "\<not> list_ex (matches (title_query ''1984'')) [book_hobbit] \<and>
   matches (title_query ''1984'') book_1984 \<and>
   update_one (title_query ''1984'') (999 / 100) ([book_hobbit] @ book_1984 # [book_gatsby]) =
     (\<lparr>matched_count = 1, modified_count = 1\<rparr>,
      [book_hobbit] @ book_1984\<lparr>price := Some (999 / 100)\<rparr> # [book_gatsby])"
proof -
  have h1: "\<not> list_ex (matches (title_query ''1984'')) [book_hobbit]"
    and h2: "matches (title_query ''1984'') book_1984" by simp_all
  from update_one_first_match [OF h1 h2, of "999 / 100" "[book_gatsby]"] h1 h2 show ?thesis
    by simp
qed

theorem update_one_no_match_witness:
  "find (title_query ''Dune'') [book_1984, book_gatsby] = [] \<and>
   update_one (title_query ''Dune'') (999 / 100) [book_1984, book_gatsby] =
     (\<lparr>matched_count = 0, modified_count = 0\<rparr>, [book_1984, book_gatsby])"
proof -
  have h: "find (title_query ''Dune'') [book_1984, book_gatsby] = []" by simp
  from update_one_no_match [OF h] h show ?thesis by simp
qed

theorem task4_misreports_unchanged_price_witness:
  "find (title_query ''1984'') [book_hobbit, book_1984\<lparr>price := Some (999 / 100)\<rparr>] =
     [book_1984\<lparr>price := Some (999 / 100)\<rparr>] \<and>
   price (book_1984\<lparr>price := Some (999 / 100)\<rparr>) = Some (999 / 100) \<and>
   fst (task4_update_price [book_hobbit, book_1984\<lparr>price := Some (999 / 100)\<rparr>]) =
     No_book_found ''1984''"
proof -
  have h1: "find (title_query ''1984'') [book_hobbit, book_1984\<lparr>price := Some (999 / 100)\<rparr>] =
     book_1984\<lparr>price := Some (999 / 100)\<rparr> # []"
    and h2: "price (book_1984\<lparr>price := Some (999 / 100)\<rparr>) = Some (999 / 100)" by simp_all
  from task4_misreports_unchanged_price [OF h1 h2] h1 h2 show ?thesis by simp
qed

theorem delete_one_first_match_witness:
  "\<not> list_ex (matches (title_query ''The Great Gatsby'')) [book_1984] \<and>
   matches (title_query ''The Great Gatsby'') book_gatsby \<and>
   delete_one (title_query ''The Great Gatsby'') ([book_1984] @ book_gatsby # [book_hobbit, book_gatsby]) =
     (1, [book_1984] @ [book_hobbit, book_gatsby])"
proof -
  have h1: "\<not> list_ex (matches (title_query ''The Great Gatsby'')) [book_1984]"
    and h2: "matches (title_query ''The Great Gatsby'') book_gatsby" by simp_all
  from delete_one_first_match [OF h1 h2, of "[book_hobbit, book_gatsby]"] h1 h2 show ?thesis
    by simp
qed

end
