(* ===== verification/Queries.thy ===== *)
theory Queries
  imports Books
begin

text \<open>
  The read queries of \<open>src/queries.js\<close>: Tasks 1-3 (lines 13-52) and Advanced Queries
  1-5 (lines 84-144). A query is a filter and the cursor options the driver passes along
  (\<open>projection\<close>, \<open>sort\<close>, \<open>skip\<close>, \<open>limit\<close>). The server applies them in a fixed
  order whatever order the options are written in: filter, sort, skip, limit, then
  projection. A projected document is the list of its remaining fields in stored order,
  with \<open>_id\<close> excluded as every projection of the script asks. Every returned document
  is well typed: each field once, with a value of the BSON type the field is stored with.
\<close>

section \<open>Cursor options\<close>

datatype direction = Asc | Desc

record find_options =
  projection :: "field list option"
  sort_spec :: "(field \<times> direction) option"
  skip_n :: nat
  limit_n :: nat

type_synonym doc = "(field \<times> bson) list"

text \<open>The order in which the fields of a book are stored.\<close>

definition field_order :: "field list" where
  "field_order = [Title, Author, Genre, Published_year, Price, In_stock, Publisher]"

text \<open>\<open>projection: { title: 1, author: 1, _id: 0 }\<close>: the listed fields the document has.\<close>

definition project :: "field list \<Rightarrow> book \<Rightarrow> doc" where
  "project fs b =
     List.map_filter (\<lambda>f. if f \<in> set fs then map_option (Pair f) (get_field_opt b f) else None)
       field_order"

definition project_opt :: "field list option \<Rightarrow> book \<Rightarrow> doc" where
  "project_opt p b = (case p of None \<Rightarrow> project field_order b | Some fs \<Rightarrow> project fs b)"

text \<open>\<open>sort: { f: 1 }\<close> and \<open>sort: { f: -1 }\<close>, by the server's order on stored values.\<close>

definition sort_by :: "field \<Rightarrow> direction \<Rightarrow> book list \<Rightarrow> book list" where
  "sort_by f d bs =
     (case d of Asc \<Rightarrow> sort_key (\<lambda>b. bson_key (get_field b f)) bs
              | Desc \<Rightarrow> sort_desc_key (\<lambda>b. bson_key (get_field b f)) bs)"

text \<open>\<open>skip\<close> then \<open>limit\<close>; a limit of 0 means no limit.\<close>

definition page :: "nat \<Rightarrow> nat \<Rightarrow> 'a list \<Rightarrow> 'a list" where
  "page s l xs = (if l = 0 then drop s xs else take l (drop s xs))"

definition apply_cursor :: "find_options \<Rightarrow> book list \<Rightarrow> doc list" where
  "apply_cursor opts bs =
     map (project_opt (projection opts))
       (page (skip_n opts) (limit_n opts)
          (case sort_spec opts of None \<Rightarrow> bs | Some (f, d) \<Rightarrow> sort_by f d bs))"

text \<open>\<open>collection.find(q, options).toArray()\<close>\<close>

definition find_with :: "filter \<Rightarrow> find_options \<Rightarrow> book list \<Rightarrow> doc list" where
  "find_with q opts coll = apply_cursor opts (find q coll)"

text \<open>Reading a field of a returned document, \<open>null\<close> when it is absent.\<close>

definition doc_get :: "doc \<Rightarrow> field \<Rightarrow> bson" where
  "doc_get d f = (case map_of d f of None \<Rightarrow> BNull | Some v \<Rightarrow> v)"

text \<open>The BSON type each field is stored with, and a returned document that respects it:
  each field at most once, each with a value of its type.\<close>

fun field_value_ok :: "field \<Rightarrow> bson \<Rightarrow> bool" where
  "field_value_ok Title (BStr s) = True"
| "field_value_ok Author (BStr s) = True"
| "field_value_ok Genre (BStr s) = True"
| "field_value_ok Published_year (BInt y) = True"
| "field_value_ok Price (BDouble p) = True"
| "field_value_ok In_stock (BBool v) = True"
| "field_value_ok Publisher (BStr s) = True"
| "field_value_ok f v = False"

definition well_typed_doc :: "doc \<Rightarrow> bool" where
  "well_typed_doc d = (distinct (map fst d) \<and> list_all (\<lambda>(f, v). field_value_ok f v) d)"

section \<open>The queries of the script\<close>

text \<open>Task 1 (lines 18 and 24), Task 2 (line 36), Task 3 (line 48).\<close>

definition books_by_genre :: "string \<Rightarrow> book list \<Rightarrow> book list" where
  "books_by_genre g coll = find [Eq Genre (BStr g)] coll"

definition books_published_after :: "int \<Rightarrow> book list \<Rightarrow> book list" where
  "books_published_after y coll = find [Gt Published_year (BInt y)] coll"

definition books_by_author :: "string \<Rightarrow> book list \<Rightarrow> book list" where
  "books_by_author a coll = find [Eq Author (BStr a)] coll"

text \<open>Advanced Query 1 (lines 86-91).\<close>

definition in_stock_recent :: "book list \<Rightarrow> doc list" where
  "in_stock_recent coll =
     find_with [Eq In_stock (BBool True), Gt Published_year (BInt 1950)]
       \<lparr>projection = Some [Title, Author, Price, Published_year], sort_spec = None,
        skip_n = 0, limit_n = 0\<rparr> coll"

text \<open>Advanced Query 2 (lines 100-102).\<close>

definition all_books_projection :: "book list \<Rightarrow> doc list" where
  "all_books_projection coll =
     find_with [] \<lparr>projection = Some [Title, Author], sort_spec = None, skip_n = 0, limit_n = 0\<rparr> coll"

text \<open>Advanced Query 3 (lines 111-114).\<close>

definition sorted_by_price :: "book list \<Rightarrow> doc list" where
  "sorted_by_price coll =
     find_with [] \<lparr>projection = Some [Title, Author, Price], sort_spec = Some (Price, Desc),
                   skip_n = 0, limit_n = 0\<rparr> coll"

text \<open>Advanced Query 4 (lines 123-126).\<close>

definition sorted_by_year :: "book list \<Rightarrow> doc list" where
  "sorted_by_year coll =
     find_with [] \<lparr>projection = Some [Title, Author, Published_year],
                   sort_spec = Some (Published_year, Asc), skip_n = 0, limit_n = 0\<rparr> coll"

text \<open>Advanced Query 5 (lines 135-139).\<close>

definition first_five_books :: "book list \<Rightarrow> doc list" where
  "first_five_books coll =
     find_with [] \<lparr>projection = Some [Title, Author], sort_spec = None, skip_n = 0, limit_n = 5\<rparr> coll"

section \<open>Projection\<close>

lemma map_of_map_filter_fields:
  "map_of (List.map_filter (\<lambda>f. if P f then map_option (Pair f) (g f) else None) fl) f =
   (if f \<in> set fl \<and> P f then g f else None)"
  by (induction fl) (auto simp: List.map_filter_simps split: option.split)

lemma field_in_order [simp]: "f \<in> set field_order"
  by (cases f) (simp_all add: field_order_def)

lemma map_of_project:
  "map_of (project fs b) f = (if f \<in> set fs then get_field_opt b f else None)"
  by (simp add: project_def map_of_map_filter_fields)

lemma map_fst_map_filter_fields:
  "map fst (List.map_filter (\<lambda>f. if P f then map_option (Pair f) (g f) else None) fl) =
   filter (\<lambda>f. P f \<and> g f \<noteq> None) fl"
  by (induction fl) (auto simp: List.map_filter_simps split: option.split)

lemma set_map_filter_fields:
  "set (List.map_filter (\<lambda>f. if P f then map_option (Pair f) (g f) else None) fl) =
   {(f, v). f \<in> set fl \<and> P f \<and> g f = Some v}"
  by (induction fl) (auto simp: List.map_filter_simps split: option.split)

lemma field_value_ok_get_field_opt: "get_field_opt b f = Some v \<Longrightarrow> field_value_ok f v"
  by (cases f) auto

lemma distinct_field_order [simp]: "distinct field_order"
  by (simp add: field_order_def)

lemma well_typed_project: "well_typed_doc (project fs b)"
  unfolding well_typed_doc_def project_def
  by (auto simp: map_fst_map_filter_fields set_map_filter_fields list_all_iff
           intro: field_value_ok_get_field_opt)

lemma doc_get_project:
  "doc_get (project fs b) f = (if f \<in> set fs then get_field b f else BNull)"
  by (simp add: doc_get_def map_of_project get_field_def)

lemma project_opt_simps [simp]:
  "project_opt (Some fs) = project fs" "project_opt None = project field_order"
  by (simp_all add: project_opt_def fun_eq_iff)

lemma page_no_limit [simp]: "page s 0 xs = drop s xs"
  by (simp add: page_def)

lemma find_Nil_filter [simp]: "find [] coll = coll"
  by (induction coll) auto

section \<open>Properties of the queries\<close>

text \<open>
  C27: Task 2 returns the books whose year is a number strictly greater than the given
  year, in collection order; a book without a year is never returned.
\<close>

theorem books_published_after_iff:
  "books_published_after y coll = filter (\<lambda>b. \<exists>py. published_year b = Some py \<and> y < py) coll"
  by (induction coll) (simp_all add: books_published_after_def)

text \<open>
  C28: Advanced Query 1 returns exactly the in-stock books among Task 2's results for 1950,
  in the same order, projected to title, author, price and year.
\<close>

theorem in_stock_recent_is_task2_in_stock:
  "in_stock_recent coll =
   map (project [Title, Author, Price, Published_year]) (filter in_stock (books_published_after 1950 coll))"
proof -
  have "find [Eq In_stock (BBool True), Gt Published_year (BInt 1950)] coll =
        filter in_stock (find [Gt Published_year (BInt 1950)] coll)"
    by (induction coll) auto
  then show ?thesis
    by (simp add: in_stock_recent_def find_with_def apply_cursor_def project_opt_def
                  books_published_after_def)
qed

text \<open>
  C29: Advanced Query 3 returns every book once, projected to title, author and price, in
  order of price, highest first; books without a price come last.
\<close>

theorem sorted_by_price_order:
  "sorted_wrt (\<ge>) (map (\<lambda>d. bson_key (doc_get d Price)) (sorted_by_price coll)) \<and>
   mset (sorted_by_price coll) = mset (map (project [Title, Author, Price]) coll)"
proof
  let ?k = "\<lambda>b. bson_key (get_field b Price)"
  have "map (\<lambda>d. bson_key (doc_get d Price)) (sorted_by_price coll) = map ?k (sort_desc_key ?k coll)"
    by (simp add: sorted_by_price_def find_with_def apply_cursor_def project_opt_def sort_by_def
                  doc_get_project comp_def)
  then show "sorted_wrt (\<ge>) (map (\<lambda>d. bson_key (doc_get d Price)) (sorted_by_price coll))"
    by (simp add: sorted_desc_sort_desc_key)
  show "mset (sorted_by_price coll) = mset (map (project [Title, Author, Price]) coll)"
    by (simp add: sorted_by_price_def find_with_def apply_cursor_def project_opt_def sort_by_def)
qed


text \<open>
  C31: Advanced Query 5 is the first page of Advanced Query 2: the first five books in
  collection order, or all of them when there are fewer.
\<close>

theorem first_five_books_prefix:
  "first_five_books coll = take 5 (all_books_projection coll) \<and>
   length (first_five_books coll) = min 5 (length coll)"
  by (simp add: first_five_books_def all_books_projection_def find_with_def apply_cursor_def
                page_def take_map)




section \<open>Witnesses\<close>


end
