(* ===== verification/Indexes.thy ===== *)
theory Indexes
  imports Queries Expressions Writes
begin

text \<open>
  The index section of \<open>src/queries.js\<close> (lines 255-298): two \<open>createIndex\<close> calls, each
  in its own \<open>try/catch\<close>, and three \<open>explain("executionStats")\<close> queries whose
  \<open>totalDocsExamined\<close> the script prints. The collection's indexes are state: a list of
  (name, key pattern); the built-in \<open>_id_\<close> index is left out, since no generated name
  can equal it and no query of the script uses it. \<open>createIndex\<close> names an index by
  joining each key and its direction with underscores; asking again for an index that
  exists with the same keys is a no-op that returns its name, and only a name held by a
  different key pattern is an error. For \<open>explain\<close>, an index is a candidate plan when
  the filter has a condition on its first key, and its scan examines the documents inside
  the index bounds (those meeting the filter's conditions on the index's fields); the
  server's trial race between candidates is modelled by its outcome, the candidate
  examining the fewest documents, and without a candidate the server scans the whole
  collection. Execution times are measurements and are not modelled.
\<close>

section \<open>Indexes and their names\<close>

type_synonym key_pattern = "(field \<times> int) list"

type_synonym index = "string \<times> key_pattern"

text \<open>The key of each field in the stored documents.\<close>

fun field_name :: "field \<Rightarrow> string" where
  "field_name Title = ''title''"
| "field_name Author = ''author''"
| "field_name Genre = ''genre''"
| "field_name Published_year = ''published_year''"
| "field_name Price = ''price''"
| "field_name In_stock = ''in_stock''"
| "field_name Publisher = ''publisher''"

fun join_with :: "string \<Rightarrow> string list \<Rightarrow> string" where
  "join_with sep [] = []"
| "join_with sep [s] = s"
| "join_with sep (s # t # ss) = s @ sep @ join_with sep (t # ss)"

text \<open>The default name: \<open>{ author: 1, published_year: -1 }\<close> is \<open>author_1_published_year_-1\<close>.\<close>

definition index_name :: "key_pattern \<Rightarrow> string" where
  "index_name ks = join_with ''_'' (map (\<lambda>(f, d). field_name f @ ''_'' @ int_to_string d) ks)"

datatype index_error = Index_key_specs_conflict string

definition create_index :: "key_pattern \<Rightarrow> index list \<Rightarrow> (index_error + string) \<times> index list" where
  "create_index ks idxs =
     (let n = index_name ks in
      case map_of idxs n of
        Some ks' \<Rightarrow> (if ks' = ks then (Inr n, idxs) else (Inl (Index_key_specs_conflict n), idxs))
      | None \<Rightarrow> (Inr n, idxs @ [(n, ks)]))"

text \<open>Lines 259-271: the message printed by the \<open>try\<close> or by its \<open>catch\<close>.\<close>

datatype index_message = Index_created string | Index_already_exists_message

definition index_message :: "index_error + string \<Rightarrow> index_message" where
  "index_message r = (case r of Inr n \<Rightarrow> Index_created n | Inl _ \<Rightarrow> Index_already_exists_message)"

definition title_index :: key_pattern where
  "title_index = [(Title, 1)]"

definition author_year_index :: key_pattern where
  "author_year_index = [(Author, 1), (Published_year, -1)]"

text \<open>The invariant of the index list: names are unique and each is the default name of its
  key pattern, as \<open>createIndex\<close> without a \<open>name\<close> option makes them.\<close>

definition indexes_wf :: "index list \<Rightarrow> bool" where
  "indexes_wf idxs = (distinct (map fst idxs) \<and> list_all (\<lambda>(n, ks). n = index_name ks) idxs)"

section \<open>Explain: documents examined\<close>

fun cond_field :: "cond \<Rightarrow> field" where
  "cond_field (Eq f v) = f"
| "cond_field (Gt f v) = f"
| "cond_field (Gte f v) = f"

definition index_bounds :: "key_pattern \<Rightarrow> filter \<Rightarrow> filter" where
  "index_bounds ks q = filter (\<lambda>c. cond_field c \<in> fst ` set ks) q"

text \<open>An index is a candidate plan when the filter constrains its first key; the scan of a
  candidate examines the documents inside its bounds.\<close>

definition index_usable :: "filter \<Rightarrow> index \<Rightarrow> bool" where
  "index_usable q i = (case snd i of [] \<Rightarrow> False | (f, d) # _ \<Rightarrow> list_ex (\<lambda>c. cond_field c = f) q)"

definition index_cost :: "filter \<Rightarrow> book list \<Rightarrow> index \<Rightarrow> nat" where
  "index_cost q coll i = length (find (index_bounds (snd i) q) coll)"

text \<open>The plan race: the candidate that examines the fewest documents wins, the earlier
  created one among equals; with no candidate the server scans the collection.\<close>

definition winning_index :: "index list \<Rightarrow> filter \<Rightarrow> book list \<Rightarrow> index option" where
  "winning_index idxs q coll =
     (case sort_key (index_cost q coll) (filter (index_usable q) idxs) of
        [] \<Rightarrow> None
      | i # _ \<Rightarrow> Some i)"

text \<open>\<open>explain("executionStats").executionStats.totalDocsExamined\<close>\<close>

definition docs_examined :: "index list \<Rightarrow> filter \<Rightarrow> book list \<Rightarrow> nat" where
  "docs_examined idxs q coll =
     (case winning_index idxs q coll of
        None \<Rightarrow> length coll
      | Some i \<Rightarrow> index_cost q coll i)"

text \<open>The three explained queries of lines 278, 285 and 291-295.\<close>

definition publisher_query :: filter where
  "publisher_query = [Eq Publisher (BStr ''HarperOne'')]"

definition orwell_since_1940_query :: filter where
  "orwell_since_1940_query = [Eq Author (BStr ''George Orwell''), Gte Published_year (BInt 1940)]"

section \<open>Properties of the index section\<close>

lemma matches_index_bounds: "matches q b \<Longrightarrow> matches (index_bounds ks q) b"
  by (simp add: matches_def index_bounds_def list_all_iff)

lemma length_find_mono:
  "(\<And>b. matches q b \<Longrightarrow> matches q' b) \<Longrightarrow> length (find q coll) \<le> length (find q' coll)"
  by (induction coll) auto

lemma length_find_le: "length (find q coll) \<le> length coll"
  by (simp add: find_def)

lemma int_to_string_one_values [simp]:
  "int_to_string 1 = ''1''" "int_to_string (-1) = ''-1''"
  by (simp_all add: int_to_string_def nat_digits.simps digit_char_def)

lemma script_index_names [simp]:
  "index_name title_index = ''title_1''"
  "index_name author_year_index = ''author_1_published_year_-1''"
  by (simp_all add: index_name_def title_index_def author_year_index_def)

lemma create_index_wf: "indexes_wf idxs \<Longrightarrow> indexes_wf (snd (create_index ks idxs))"
  by (auto simp: create_index_def Let_def indexes_wf_def map_of_eq_None_iff split: option.split)

text \<open>
  C34: \<open>createIndex\<close> is idempotent: once it has returned a name, calling it again with
  the same keys returns the same name, changes nothing, and the script prints "Created
  index" again; its "already exists" message is never reached for an existing index.
\<close>

theorem create_index_idempotent:
  assumes "create_index ks idxs = (Inr n, idxs')"
  shows "create_index ks idxs' = (Inr n, idxs') \<and>
         index_message (fst (create_index ks idxs')) = Index_created n"
  using assms
  by (auto simp: create_index_def Let_def index_message_def map_of_append map_add_def
           split: option.splits if_splits)

text \<open>
  C35: After the script's two \<open>createIndex\<close> calls on a collection without indexes, the
  explained query by title examines exactly the books with that title, the query by
  publisher (no index) examines every book, and the query on author and year examines
  exactly the books it returns. That last query, printed as "published after 1940",
  returns the books of 1940 too: its condition is \<open>$gte\<close>.
\<close>

theorem script_explains_docs_examined:
  "docs_examined (snd (create_index author_year_index (snd (create_index title_index []))))
     (title_query t) coll = length (find (title_query t) coll) \<and>
   docs_examined (snd (create_index author_year_index (snd (create_index title_index []))))
     publisher_query coll = length coll \<and>
   docs_examined (snd (create_index author_year_index (snd (create_index title_index []))))
     orwell_since_1940_query coll = length (find orwell_since_1940_query coll) \<and>
   (matches orwell_since_1940_query b \<longleftrightarrow>
      author b = ''George Orwell'' \<and> (\<exists>y. published_year b = Some y \<and> 1940 \<le> y))"
proof -
  have idxs: "snd (create_index author_year_index (snd (create_index title_index []))) =
              [(''title_1'', title_index), (''author_1_published_year_-1'', author_year_index)]"
    by (simp add: create_index_def Let_def)
  have b2: "index_bounds author_year_index orwell_since_1940_query = orwell_since_1940_query"
    by (simp add: index_bounds_def author_year_index_def orwell_since_1940_query_def)
  have q: "matches orwell_since_1940_query b \<longleftrightarrow>
      author b = ''George Orwell'' \<and> (\<exists>y. published_year b = Some y \<and> 1940 \<le> y)"
    by (simp add: orwell_since_1940_query_def)
  show ?thesis
    unfolding idxs using q
    by (simp add: docs_examined_def winning_index_def index_usable_def index_cost_def
                  title_index_def author_year_index_def title_query_def publisher_query_def
                  orwell_since_1940_query_def index_bounds_def)
qed


section \<open>Witnesses\<close>

theorem create_index_idempotent_witness:
  "create_index title_index [] = (Inr ''title_1'', [(''title_1'', title_index)]) \<and>
   create_index title_index [(''title_1'', title_index)] = (Inr ''title_1'', [(''title_1'', title_index)]) \<and>
   index_message (fst (create_index title_index [(''title_1'', title_index)])) = Index_created ''title_1''"
proof -
  have h: "create_index title_index [] = (Inr ''title_1'', [(''title_1'', title_index)])"
    by (simp add: create_index_def Let_def)
  from create_index_idempotent [OF h] h show ?thesis by blast
qed

end
