(* ===== verification/Script.thy ===== *)
theory Script
  imports Aggregations Writes Queries Indexes
begin

text \<open>
  \<open>runAllQueries\<close> of \<open>src/queries.js\<close> (lines 6-306) as a run of database steps over
  the server state (the documents and the indexes of \<open>books\<close>). Each step is one awaited
  driver call of the script, in the script's order; what the script prints about it is
  an event carrying the value printed (the console formatting itself is not modelled).
  A driver call may throw (the network, the server): the model takes as a parameter the
  set of call positions that throw. A throwing call has no effect on the state. A throw
  from a \<open>createIndex\<close> is caught by its own \<open>try\<close> (lines 259-271), which prints the
  "already exists" message, and the run goes on; any other throw ends the run in the
  top-level \<open>catch\<close> (line 300). The \<open>finally\<close> (lines 302-305) closes the client in
  every case, and a failed \<open>connect\<close> goes straight to the \<open>catch\<close>.
\<close>

record db_state =
  books_coll :: "book list"
  indexes :: "index list"

datatype step =
    Find_genre string
  | Find_published_after int
  | Find_author string
  | Update_price string money
  | Delete_title string
  | Find_in_stock_recent
  | Find_all_projected
  | Find_sorted_by_price
  | Find_sorted_by_year
  | Find_first_five
  | Aggregate_genre_prices
  | Aggregate_top_author
  | Aggregate_decades
  | Create_index key_pattern
  | Explain filter

datatype outcome =
    Books_result "book list"
  | Docs_result "doc list"
  | Write_result write_message
  | Genre_report "genre_summary list"
  | Author_report author_line
  | Decade_report "decade_summary list"
  | Index_result index_message
  | Explain_result nat

datatype event = Connected | Output outcome | Error_logged | Connection_closed

text \<open>One driver call that returns normally.\<close>

fun exec_step :: "step \<Rightarrow> db_state \<Rightarrow> outcome \<times> db_state" where
  "exec_step (Find_genre g) s = (Books_result (books_by_genre g (books_coll s)), s)"
| "exec_step (Find_published_after y) s = (Books_result (books_published_after y (books_coll s)), s)"
| "exec_step (Find_author a) s = (Books_result (books_by_author a (books_coll s)), s)"
| "exec_step (Update_price t p) s =
     (case update_one (title_query t) p (books_coll s) of
        (r, c) \<Rightarrow> (Write_result (update_message t p r), s\<lparr>books_coll := c\<rparr>))"
| "exec_step (Delete_title t) s =
     (case delete_one (title_query t) (books_coll s) of
        (n, c) \<Rightarrow> (Write_result (delete_message t n), s\<lparr>books_coll := c\<rparr>))"
| "exec_step Find_in_stock_recent s = (Docs_result (in_stock_recent (books_coll s)), s)"
| "exec_step Find_all_projected s = (Docs_result (all_books_projection (books_coll s)), s)"
| "exec_step Find_sorted_by_price s = (Docs_result (sorted_by_price (books_coll s)), s)"
| "exec_step Find_sorted_by_year s = (Docs_result (sorted_by_year (books_coll s)), s)"
| "exec_step Find_first_five s = (Docs_result (first_five_books (books_coll s)), s)"
| "exec_step Aggregate_genre_prices s = (Genre_report (avg_price_per_genre (books_coll s)), s)"
| "exec_step Aggregate_top_author s = (Author_report (author_report_line (top_author (books_coll s))), s)"
| "exec_step Aggregate_decades s = (Decade_report (books_by_decade (books_coll s)), s)"
| "exec_step (Create_index ks) s =
     (case create_index ks (indexes s) of
        (r, ix) \<Rightarrow> (Index_result (index_message r), s\<lparr>indexes := ix\<rparr>))"
| "exec_step (Explain q) s = (Explain_result (docs_examined (indexes s) q (books_coll s)), s)"

text \<open>The driver calls of lines 18-295, in order.\<close>

definition script_steps :: "step list" where
  "script_steps =
     [Find_genre ''Fiction'', Find_genre ''Dystopian'', Find_published_after 1950,
      Find_author ''George Orwell'', Update_price ''1984'' (999 / 100),
      Delete_title ''The Great Gatsby'', Find_in_stock_recent, Find_all_projected,
      Find_sorted_by_price, Find_sorted_by_year, Find_first_five, Aggregate_genre_prices,
      Aggregate_top_author, Aggregate_decades, Create_index title_index,
      Create_index author_year_index, Explain (title_query ''1984''), Explain publisher_query,
      Explain orwell_since_1940_query]"

text \<open>The body of the \<open>try\<close>: call \<open>i\<close> throws when \<open>fails i\<close>.\<close>

fun run_steps :: "(nat \<Rightarrow> bool) \<Rightarrow> nat \<Rightarrow> step list \<Rightarrow> db_state \<Rightarrow> event list \<times> db_state" where
  "run_steps fails i [] s = ([], s)"
| "run_steps fails i (st # sts) s =
     (if fails i then
        (case st of
           Create_index ks \<Rightarrow>
             (case run_steps fails (Suc i) sts s of
                (evs, s') \<Rightarrow> (Output (Index_result Index_already_exists_message) # evs, s'))
         | _ \<Rightarrow> ([Error_logged], s))
      else
        (case exec_step st s of
           (out, s1) \<Rightarrow> (case run_steps fails (Suc i) sts s1 of (evs, s') \<Rightarrow> (Output out # evs, s'))))"

text \<open>\<open>runAllQueries\<close>: connect, the steps, the \<open>catch\<close>, the \<open>finally\<close>.\<close>

definition run_all_queries :: "bool \<Rightarrow> (nat \<Rightarrow> bool) \<Rightarrow> db_state \<Rightarrow> event list \<times> db_state" where
  "run_all_queries connect_ok fails s =
     (if connect_ok then
        (case run_steps fails 0 script_steps s of
           (evs, s') \<Rightarrow> (Connected # evs @ [Connection_closed], s'))
      else ([Error_logged, Connection_closed], s))"

text \<open>The calls whose throw the script survives, and the events that print a result.\<close>

fun is_create_index :: "step \<Rightarrow> bool" where
  "is_create_index (Create_index ks) = True"
| "is_create_index st = False"

fun is_output :: "event \<Rightarrow> bool" where
  "is_output (Output out) = True"
| "is_output e = False"

section \<open>Facts about runs\<close>

lemma run_steps_no_close: "Connection_closed \<notin> set (fst (run_steps fails i sts s))"
  by (induction fails i sts s rule: run_steps.induct)
    (auto split: prod.split step.split)

lemma run_steps_progress:
  "k \<le> length sts \<Longrightarrow> (\<forall>j<k. fails (i + j) \<longrightarrow> is_create_index (sts ! j)) \<Longrightarrow>
   k \<le> length (fst (run_steps fails i sts s)) \<and> list_all is_output (take k (fst (run_steps fails i sts s)))"
proof (induction sts arbitrary: i k s)
  case Nil
  then show ?case by simp
next
  case (Cons st sts)
  show ?case
  proof (cases k)
    case 0
    then show ?thesis by simp
  next
    case (Suc k')
    have hyp: "\<forall>j<k'. fails (Suc i + j) \<longrightarrow> is_create_index (sts ! j)"
      using Cons.prems(2) Suc by fastforce
    have len: "k' \<le> length sts" using Cons.prems(1) Suc by simp
    show ?thesis
    proof (cases "fails i")
      case True
      then have "is_create_index st" using Cons.prems(2) Suc by fastforce
      then obtain ks where "st = Create_index ks" by (cases st) auto
      with True Cons.IH [OF len hyp, of s] Suc show ?thesis
        by (auto split: prod.split)
    next
      case False
      obtain out s1 where ex: "exec_step st s = (out, s1)" by fastforce
      from False ex Cons.IH [OF len hyp, of s1] Suc show ?thesis
        by (auto split: prod.split)
    qed
  qed
qed

lemma exec_step_wf:
  assumes "indexes_wf (indexes s)"
  shows "indexes_wf (indexes (snd (exec_step st s)))"
proof (cases st)
  case (Create_index ks)
  with create_index_wf [OF assms, of ks] show ?thesis by (simp add: split_def)
qed (use assms in \<open>simp_all add: split_def\<close>)

lemma run_steps_wf: "indexes_wf (indexes s) \<Longrightarrow> indexes_wf (indexes (snd (run_steps fails i sts s)))"
proof (induction fails i sts s rule: run_steps.induct)
  case (1 fails i s)
  then show ?case by simp
next
  case (2 fails i st sts s)
  show ?case
  proof (cases "fails i")
    case True
    with 2 show ?thesis by (cases st) (auto split: prod.split)
  next
    case False
    obtain out s1 where ex: "exec_step st s = (out, s1)" by fastforce
    with exec_step_wf [OF "2.prems", of st] have "indexes_wf (indexes s1)" by simp
    with False ex "2.IH" show ?thesis by (auto split: prod.split)
  qed
qed

end
