(* ===== verification/Spec2Isabelle.thy ===== *)
theory Spec2Isabelle
  imports Script
begin

text \<open>
  \<^bold>\<open>A verification development of \<open>src/queries.js\<close>.\<close>

  The program is one Node.js script, \<open>runAllQueries\<close>, that connects to a MongoDB
  server and runs a fixed sequence of driver calls on the \<open>books\<close> collection of the
  \<open>plp_bookstore\<close> database: finds with filters (Tasks 1-3), an \<open>updateOne\<close> and a
  \<open>deleteOne\<close> (Tasks 4-5), finds with projection, sort and pagination (Advanced Queries
  1-5), three aggregation pipelines, two \<open>createIndex\<close> calls and three explained queries,
  printing what each returns. The parts interact only through the server state: the
  writes change the documents every later query reads, and the index calls change the
  indexes the explained queries use.

  \<^bold>\<open>Theories.\<close>
  \<^item> \<open>Prelude\<close>: the shared vocabulary (\<open>money\<close> as exact rationals, \<open>year\<close> as
    integers), first-occurrence deduplication, a stable descending sort by key with its
    stability and head lemmas (the model of \<open>$sort\<close> and \<open>sort\<close> with direction -1),
    equal to the library's stable sort run backwards, and \<open>$avg\<close> over optional numbers.
  \<^item> \<open>Books\<close>: a document as the record \<open>book\<close> with optional fields, the stored values
    \<open>bson\<close>, MongoDB's cross-type comparison order (\<open>bson_key\<close>), filter documents as
    lists of \<open>Eq\<close>/\<open>Gt\<close>/\<open>Gte\<close> conditions with type bracketing, and \<open>find\<close>.
  \<^item> \<open>Queries\<close>: Tasks 1-3 and Advanced Queries 1-5; cursor options applied in the
    server's order (sort, skip, limit, projection); the BSON type of each stored field.
  \<^item> \<open>Writes\<close>: Tasks 4-5; \<open>updateOne\<close> with \<open>$set\<close> and \<open>deleteOne\<close> on the first
    match with the counts the driver reports, and the messages chosen from them.
  \<^item> \<open>Grouping\<close>: \<open>$group\<close> as a streaming table (\<open>group_by\<close>) and its reference
    description (\<open>group_spec\<close>).
  \<^item> \<open>Expressions\<close>: \<open>$round\<close> (ties to even), \<open>$toString\<close> of integers with a reader,
    and the decade start \<open>y - y $mod 10\<close> with MongoDB's truncating \<open>$mod\<close>.
  \<^item> \<open>Aggregations\<close>: the three pipelines stage by stage, the line printed from
    Aggregation 2's report, and an abstract description of each report row
    (\<open>genre_summary_spec\<close>, \<open>decade_summary_spec\<close>).
  \<^item> \<open>Indexes\<close>: the index list as state, \<open>createIndex\<close> with default names, the
    planner's candidate indexes and winning plan, and \<open>totalDocsExamined\<close> of an
    explained query.
  \<^item> \<open>Script\<close>: the server state \<open>db_state\<close>, one \<open>step\<close> per driver call in the order of
    the source, \<open>exec_step\<close>, the run with driver failures (\<open>run_steps\<close>) and
    \<open>run_all_queries\<close> with its \<open>catch\<close> and \<open>finally\<close>.
  \<^item> this theory: properties of whole runs.

  \<^bold>\<open>What is proved.\<close> For the \<open>$group\<close> engine, that the streaming table refines the
  reference grouping (C1). For the descending \<open>$sort\<close>, that it is equivalent to the
  library's stable sort run on the reversed input (C9). For each pipeline, its order (C2,
  C10), the content of every row against the abstract description (C3, C11), totals (C4),
  the handling of missing prices (C5), the maximality and tie order of the top author
  (C6, C8), the empty report and the "No authors found" branch (C7), and the sample slice
  (C12). For the operators, rounding of ties and its error bound (C14, C15), the decade
  start for non-negative years, the truncation for negative years (C16, C17), and the
  round trip of the decade label (C18). For the writes, their effect on the first match,
  the error path, the frame, and the counts (C19-C21, C23-C26). For the finds, that every
  returned document is well typed (C13), the filter semantics, the composition of Advanced
  Query 1 with Task 2, the sort orders and their stability, the pagination and the
  projection (C27-C33). For the indexes, idempotence and the documents examined
  (C34-C36). For whole runs, that every call is made unless an earlier one throws outside
  a \<open>createIndex\<close> (C22), that the client is always closed (C37), the complete output of
  a run without failures (C38), that a failed write leaves the earlier write in place
  (C39), and that every run keeps the index list well formed: unique names, each the
  default name of its keys (C40). A lemma shows a failing \<open>createIndex\<close> caught by its own
  \<open>try\<close>; the examples of the specification (three books by two authors; books of 1945,
  1949 and 1951) are lemmas of \<open>Aggregations\<close>.

  \<^bold>\<open>Choices of the model.\<close> Prices are exact rationals: the rounding of IEEE doubles is
  not modelled, so \<open>$avg\<close> and \<open>$round\<close> are exact. MongoDB leaves the order of
  \<open>$group\<close>'s output and of ties in \<open>$sort\<close> unspecified; the model fixes first
  occurrence and stable sorts, and only the properties that say so (C8, C30) depend on
  that choice. A driver call that throws has no effect. The query planner's trial race between
  candidate indexes is modelled by its outcome, the candidate that examines the fewest
  documents. No loop of the program is unbounded: every definition
  is total by structural recursion, so no fuel is needed.

  \<^bold>\<open>Not modelled.\<close> Console formatting (template strings of \<open>console.log\<close>), the
  driver's connection handling beyond success or failure of \<open>connect\<close>, execution times
  reported by \<open>explain\<close>, and the asynchrony of the calls (the script awaits each one in
  turn, so the order of the steps is the order of the source).
\<close>

section \<open>Properties of whole runs\<close>

lemma count_list_0_not_in: "x \<notin> set xs \<Longrightarrow> count_list xs x = 0"
  by (induction xs) auto

text \<open>
  C37: Whatever fails, the client is closed exactly once, as the last thing the script
  does: the \<open>finally\<close> runs after a normal end, after an error caught at the top level,
  and after a failed connection.
\<close>

theorem run_always_closes:
  "last (fst (run_all_queries c fails s)) = Connection_closed \<and>
   count_list (fst (run_all_queries c fails s)) Connection_closed = 1"
proof (cases c)
  case True
  obtain evs s' where r: "run_steps fails 0 script_steps s = (evs, s')" by fastforce
  have "Connection_closed \<notin> set evs"
    using run_steps_no_close [of fails 0 script_steps s] r by simp
  with True r show ?thesis by (simp add: run_all_queries_def count_list_0_not_in)
next
  case False
  then show ?thesis by (simp add: run_all_queries_def)
qed


text \<open>
  C39: The writes are not a transaction: when the \<open>deleteOne\<close> call (the sixth call)
  throws, the price update made just before stays in the collection, the error is logged,
  no later query runs, and the client is closed.
\<close>

theorem delete_failure_keeps_update:
  "books_coll (snd (run_all_queries True (\<lambda>j. j = 5) s)) =
     snd (update_one (title_query ''1984'') (999 / 100) (books_coll s)) \<and>
   length (fst (run_all_queries True (\<lambda>j. j = 5) s)) = 8 \<and>
   drop 6 (fst (run_all_queries True (\<lambda>j. j = 5) s)) = [Error_logged, Connection_closed]"
  by (simp add: run_all_queries_def script_steps_def Let_def split_def)

text \<open>
  A throw from the first \<open>createIndex\<close> is caught by its own \<open>try\<close>: the script
  prints the "already exists" message, goes on to the second index and the three explained
  queries, logs no error, and ends with only the compound index added.
\<close>

theorem index_failure_recovered:
  "Error_logged \<notin> set (fst (run_all_queries True (\<lambda>j. j = 14) s)) \<and>
   fst (run_all_queries True (\<lambda>j. j = 14) s) ! 15 = Output (Index_result Index_already_exists_message) \<and>
   length (fst (run_all_queries True (\<lambda>j. j = 14) s)) = 21 \<and>
   indexes (snd (run_all_queries True (\<lambda>j. j = 14) s)) = snd (create_index author_year_index (indexes s))"
  by (simp add: run_all_queries_def script_steps_def Let_def split_def)

text \<open>
  C22: Every call of the script is made unless an earlier call throws outside a
  \<open>createIndex\<close>: when none of the first \<open>k\<close> calls throws (a throwing \<open>createIndex\<close>
  apart), the run prints a result for each of them, right after "Connected", and still
  ends by closing the client.
\<close>

theorem run_reaches_every_call:
  assumes "k \<le> length script_steps" and "\<forall>j<k. fails j \<longrightarrow> is_create_index (script_steps ! j)"
  shows "k + 2 \<le> length (fst (run_all_queries True fails s)) \<and>
         list_all is_output (take k (tl (fst (run_all_queries True fails s))))"
proof -
  obtain evs s' where r: "run_steps fails 0 script_steps s = (evs, s')" by fastforce
  have "k \<le> length evs \<and> list_all is_output (take k evs)"
    using run_steps_progress [of k script_steps fails 0 s] assms r by simp
  with r show ?thesis by (simp add: run_all_queries_def)
qed

text \<open>
  C40: The index list stays well formed through any run, whatever throws: if the index
  names are unique and each is the default name of its keys before the script, so they are
  after it.
\<close>

theorem run_keeps_indexes_wf:
  assumes "indexes_wf (indexes s)"
  shows "indexes_wf (indexes (snd (run_all_queries c fails s)))"
proof -
  obtain evs s' where r: "run_steps fails 0 script_steps s = (evs, s')" by fastforce
  have "indexes_wf (indexes s')"
    using run_steps_wf [OF assms, of fails 0 script_steps] r by simp
  with assms r show ?thesis by (simp add: run_all_queries_def)
qed

section \<open>Witnesses\<close>

theorem run_reaches_every_call_witness:
  "19 + 2 \<le> length (fst (run_all_queries True (\<lambda>j. j = 14) \<lparr>books_coll = [book_1984, book_gatsby], indexes = []\<rparr>)) \<and>
   list_all is_output
     (take 19 (tl (fst (run_all_queries True (\<lambda>j. j = 14) \<lparr>books_coll = [book_1984, book_gatsby], indexes = []\<rparr>))))"
proof -
  have h1: "19 \<le> length script_steps" by (simp add: script_steps_def)
  have h2: "\<forall>j<19. (j = (14::nat)) \<longrightarrow> is_create_index (script_steps ! j)"
    by (simp add: script_steps_def)
  from run_reaches_every_call [OF h1 h2] show ?thesis .
qed

theorem run_keeps_indexes_wf_witness:
  "indexes_wf (indexes (snd (run_all_queries True (\<lambda>j. j = 15) \<lparr>books_coll = [book_1984], indexes = []\<rparr>)))"
proof -
  have h: "indexes_wf (indexes \<lparr>books_coll = [book_1984], indexes = []\<rparr>)"
    by (simp add: indexes_wf_def)
  from run_keeps_indexes_wf [OF h] show ?thesis .
qed

end
